theory Spec2Isabelle
  imports Complex_Main "HOL-Library.Multiset"
begin

section \<open>Python values shared by the modules\<close>

text \<open>
  Python ints are modelled as \<open>int\<close>, Python strings as \<open>string\<close> (the identifiers,
  labels and table entries of the program are ASCII), Python floats as IEEE doubles (the
  type \<open>pyfloat\<close> below); the float cells of the data set, which the program only copies,
  are kept as rationals. An exception is a value: \<open>Inl\<close> of the exception raised.
\<close>

datatype py_error =
    ValueError string
  | TypeError string
  | KeyError string
  | ZeroDivisionError
  | OverflowError string
  | IndexError string
  | FileNotFoundError string
  | RuntimeError string

text \<open>\<open>str(e)\<close> of an exception: its message.\<close>

fun str_error :: "py_error \<Rightarrow> string" where
  "str_error (ValueError m) = m"
| "str_error (TypeError m) = m"
| "str_error (KeyError m) = [CHR 0x27] @ m @ [CHR 0x27]"
| "str_error ZeroDivisionError = ''division by zero''"
| "str_error (OverflowError m) = m"
| "str_error (IndexError m) = m"
| "str_error (FileNotFoundError m) = m"
| "str_error (RuntimeError m) = m"

text \<open>\<open>str(n)\<close> of an int, as the f-strings of the program print it.\<close>

definition digit_char :: "nat \<Rightarrow> char" where
  "digit_char d = char_of (48 + d)"

fun str_nat :: "nat \<Rightarrow> string" where
  "str_nat n = (if n < 10 then [digit_char n] else str_nat (n div 10) @ [digit_char (n mod 10)])"

definition str_int :: "int \<Rightarrow> string" where
  "str_int i = (if i < 0 then CHR ''-'' # str_nat (nat (- i)) else str_nat (nat i))"

text \<open>\<open>s.lower()\<close> on ASCII text: the letters A to Z are mapped, every other character is kept.\<close>

definition lower_char :: "char \<Rightarrow> char" where
  "lower_char c =
     (let n = (of_char c :: nat) in if 65 \<le> n \<and> n \<le> 90 then char_of (n + 32) else c)"

definition upper_char :: "char \<Rightarrow> char" where
  "upper_char c =
     (let n = (of_char c :: nat) in if 97 \<le> n \<and> n \<le> 122 then char_of (n - 32) else c)"

definition lower :: "string \<Rightarrow> string" where
  "lower s = map lower_char s"

text \<open>\<open>d.get(k, default)\<close> on a dict written as the list of its items, in source order.\<close>

definition dict_get :: "('k \<times> 'v) list \<Rightarrow> 'k \<Rightarrow> 'v \<Rightarrow> 'v" where
  "dict_get d k dflt = (case map_of d k of None \<Rightarrow> dflt | Some v \<Rightarrow> v)"

section \<open>tools/patient\_data\_tool.py\<close>

definition STATE_MAPPING :: "(int \<times> string) list" where
  "STATE_MAPPING =
    [(1, ''Andhra Pradesh''), (2, ''Arunachal Pradesh''), (3, ''Assam''), (4, ''Bihar''),
     (5, ''Chhattisgarh''), (6, ''Goa''), (7, ''Gujarat''), (8, ''Haryana''),
     (9, ''Himachal Pradesh''), (10, ''Jharkhand''), (11, ''Karnataka''), (12, ''Kerala''),
     (13, ''Madhya Pradesh''), (14, ''Maharashtra''), (15, ''Manipur''), (16, ''Meghalaya''),
     (17, ''Mizoram''), (18, ''Nagaland''), (19, ''Odisha''), (20, ''Punjab''),
     (21, ''Rajasthan''), (22, ''Sikkim''), (23, ''Tamil Nadu''), (24, ''Telangana''),
     (25, ''Tripura''), (26, ''Uttar Pradesh''), (27, ''Uttarakhand''), (28, ''West Bengal''),
     (29, ''Delhi''), (30, ''Jammu & Kashmir''), (31, ''Ladakh''), (32, ''Andaman & Nicobar''),
     (33, ''Chandigarh''), (34, ''Dadra & Nagar Haveli''), (35, ''Lakshadweep''), (36, ''Puducherry'')]"

definition RESIDENCE_MAPPING :: "(int \<times> string) list" where
  "RESIDENCE_MAPPING = [(1, ''Urban''), (2, ''Rural'')]"

definition WEALTH_MAPPING :: "(int \<times> string) list" where
  "WEALTH_MAPPING =
    [(1, ''Poorest''), (2, ''Poorer''), (3, ''Middle''), (4, ''Richer''), (5, ''Richest'')]"

text \<open>
  One row of the data frame. \<open>row_name\<close> is the row's index label (\<open>row.name\<close>); a cell
  is \<open>None\<close> where pandas holds NaN (\<open>pd.notna\<close> is false). The three code columns hold
  integers.
\<close>

record raw_row =
  row_name :: int
  BMI :: "rat option"
  Weight_kg :: "rat option"
  Height_cm :: "rat option"
  BMI_Category :: "string option"
  Age :: "int option"
  State :: "int option"
  Urban_Rural :: "int option"
  Wealth_Index :: "int option"

text \<open>The dictionary built by \<open>_format_patient_data\<close>, one field per key.\<close>

record patient_data =
  patient_id :: string
  age :: "int option"
  height_cm :: "rat option"
  weight_kg :: "rat option"
  bmi :: "rat option"
  bmi_category :: string
  state :: string
  residence_type :: string
  wealth_index :: string
  location_context :: string
  socioeconomic_status :: string
  dietary_context :: string
  physical_activity_context :: string

definition get_dietary_context :: "string \<Rightarrow> string \<Rightarrow> string" where
  "get_dietary_context st residence =
     (if residence = ''Rural''
      then ''Traditional Indian diet with locally grown crops, rice/wheat based meals''
      else ''Urban diet with mix of traditional and modern foods, increased processed food access'')"

definition get_activity_context :: "string \<Rightarrow> string \<Rightarrow> string" where
  "get_activity_context residence wealth =
     (if residence = ''Rural''
      then ''Moderate to high physical labor in agriculture or manual work''
      else if wealth \<in> set [''Richest'', ''Richer'']
      then ''Sedentary office work, limited physical activity, gym access available''
      else ''Mix of manual and sedentary work, limited structured exercise'')"

definition format_patient_row :: "raw_row \<Rightarrow> patient_data" where
  "format_patient_row row =
     (let state_code = (case State row of Some c \<Rightarrow> c | None \<Rightarrow> 0);
          state_name = dict_get STATE_MAPPING state_code ''Unknown'';
          residence_code = (case Urban_Rural row of Some c \<Rightarrow> c | None \<Rightarrow> 0);
          residence = dict_get RESIDENCE_MAPPING residence_code ''Unknown'';
          wealth_code = (case Wealth_Index row of Some c \<Rightarrow> c | None \<Rightarrow> 0);
          wealth = dict_get WEALTH_MAPPING wealth_code ''Unknown''
      in \<lparr> patient_id = ''NFHS_'' @ str_int (row_name row),
           age = Age row,
           height_cm = Height_cm row,
           weight_kg = Weight_kg row,
           bmi = BMI row,
           bmi_category = (case BMI_Category row of Some c \<Rightarrow> c | None \<Rightarrow> ''Unknown''),
           state = state_name,
           residence_type = residence,
           wealth_index = wealth,
           location_context = residence @ '' area in '' @ state_name,
           socioeconomic_status = wealth,
           dietary_context = get_dietary_context state_name residence,
           physical_activity_context = get_activity_context residence wealth \<rparr>)"

text \<open>
  The loader object: \<open>df\<close> is \<open>None\<close> until \<open>load_data\<close> has read the file, then the
  rows in file order.
\<close>

record PatientDataLoader =
  df :: "raw_row list option"

definition get_patient_by_index :: "PatientDataLoader \<Rightarrow> int \<Rightarrow> py_error + patient_data" where
  "get_patient_by_index self index =
     (case df self of
        None \<Rightarrow> Inl (ValueError ''Data not loaded'')
      | Some rows \<Rightarrow>
          if index < 0 \<or> index \<ge> int (length rows)
          then Inl (ValueError (''Index '' @ str_int index @ '' out of range (0-''
                                @ str_int (int (length rows) - 1) @ '')''))
          else Inr (format_patient_row (rows ! nat index)))"

text \<open>
  \<open>for code, name in MAPPING.items(): if name.lower() == wanted.lower(): ... break\<close>:
  the first code, in the table's order, whose label equals the wanted one up to case.
\<close>

fun find_code :: "(int \<times> string) list \<Rightarrow> string \<Rightarrow> int option" where
  "find_code [] wanted = None"
| "find_code ((code, name) # rest) wanted =
     (if lower name = lower wanted then Some code else find_code rest wanted)"

text \<open>Truth value of an optional string argument (\<open>if state:\<close>) and of a code (\<open>if state_code:\<close>).\<close>

definition truthy_str :: "string option \<Rightarrow> bool" where
  "truthy_str a = (case a of None \<Rightarrow> False | Some s \<Rightarrow> s \<noteq> [])"

definition truthy_code :: "int option \<Rightarrow> bool" where
  "truthy_code a = (case a of None \<Rightarrow> False | Some c \<Rightarrow> c \<noteq> 0)"

definition filter_state :: "string option \<Rightarrow> raw_row list \<Rightarrow> raw_row list" where
  "filter_state st rows =
     (if truthy_str st
      then (let state_code = find_code STATE_MAPPING (the st)
            in if truthy_code state_code then filter (\<lambda>r. State r = state_code) rows else rows)
      else rows)"

definition filter_residence :: "string option \<Rightarrow> raw_row list \<Rightarrow> raw_row list" where
  "filter_residence res rows =
     (if truthy_str res
      then (let residence_code = (if lower (the res) = ''urban'' then 1 else 2 :: int)
            in filter (\<lambda>r. Urban_Rural r = Some residence_code) rows)
      else rows)"

definition filter_bmi_category :: "string option \<Rightarrow> raw_row list \<Rightarrow> raw_row list" where
  "filter_bmi_category cat rows =
     (if truthy_str cat
      then filter (\<lambda>r. case BMI_Category r of None \<Rightarrow> False
                                          | Some c \<Rightarrow> lower c = lower (the cat)) rows
      else rows)"

definition filter_wealth :: "string option \<Rightarrow> raw_row list \<Rightarrow> raw_row list" where
  "filter_wealth w rows =
     (if truthy_str w
      then (let wealth_code = find_code WEALTH_MAPPING (the w)
            in if truthy_code wealth_code then filter (\<lambda>r. Wealth_Index r = wealth_code) rows else rows)
      else rows)"

text \<open>
  \<open>DataFrame.sample(n)\<close> of pandas, for \<open>0 \<le> n \<le> len\<close>: \<open>n\<close> distinct rows, drawn
  one after the other. Which row each draw takes is the random state's affair; it is the
  argument \<open>rnd\<close> here, one number per draw. A negative \<open>n\<close> is a \<open>ValueError\<close> of pandas.
\<close>

fun df_sample :: "nat list \<Rightarrow> nat \<Rightarrow> 'a list \<Rightarrow> 'a list" where
  "df_sample rnd 0 xs = []"
| "df_sample rnd (Suc n) xs =
     (if xs = [] then []
      else (let i = (case rnd of [] \<Rightarrow> 0 | r # _ \<Rightarrow> r mod length xs)
            in xs ! i # df_sample (tl rnd) n (take i xs @ drop (Suc i) xs)))"

definition negative_sample_error :: py_error where
  "negative_sample_error = ValueError ''A negative number of rows requested.''"

definition get_patients_by_criteria ::
  "PatientDataLoader \<Rightarrow> nat list \<Rightarrow> string option \<Rightarrow> string option \<Rightarrow> string option
     \<Rightarrow> string option \<Rightarrow> int \<Rightarrow> py_error + patient_data list" where
  "get_patients_by_criteria self rnd st res cat w limit =
     (case df self of
        None \<Rightarrow> Inl (ValueError ''Data not loaded'')
      | Some rows \<Rightarrow>
          (let filtered_df =
                 filter_wealth w (filter_bmi_category cat (filter_residence res (filter_state st rows)))
           in if int (length filtered_df) > limit
              then (if limit < 0 then Inl negative_sample_error
                    else Inr (map format_patient_row (df_sample rnd (nat limit) filtered_df)))
              else Inr (map format_patient_row filtered_df)))"

text \<open>
  What the four filters come to on the decoded records. \<open>wanted_label table a\<close> is the
  label a state or wealth argument selects: the label of the code the loop above finds,
  and \<open>None\<close> when the argument is absent or empty or no code is found, in which case
  the source applies no filter. \<open>selected\<close> is the test a row has passed when it is in
  \<open>filtered_df\<close>.
\<close>

definition wanted_label :: "(int \<times> string) list \<Rightarrow> string option \<Rightarrow> string option" where
  "wanted_label table a =
     (if truthy_str a
      then (case find_code table (the a) of
              None \<Rightarrow> None
            | Some c \<Rightarrow> if c \<noteq> 0 then Some (dict_get table c ''Unknown'') else None)
      else None)"

definition selected ::
  "string option \<Rightarrow> string option \<Rightarrow> string option \<Rightarrow> string option \<Rightarrow> raw_row \<Rightarrow> bool" where
  "selected st res cat w r =
     (let p = format_patient_row r
      in (case wanted_label STATE_MAPPING st of None \<Rightarrow> True | Some l \<Rightarrow> state p = l)
       \<and> (if truthy_str res
           then residence_type p = (if lower (the res) = ''urban'' then ''Urban'' else ''Rural'')
           else True)
       \<and> (if truthy_str cat
           then BMI_Category r \<noteq> None \<and> lower (bmi_category p) = lower (the cat)
           else True)
       \<and> (case wanted_label WEALTH_MAPPING w of None \<Rightarrow> True | Some l \<Rightarrow> wealth_index p = l))"

section \<open>tools/patient\_data\_indexer.py\<close>

definition STATE_MAPPING_indexer :: "(int \<times> string) list" where
  "STATE_MAPPING_indexer =
    [(1, ''Andhra Pradesh''), (2, ''Arunachal Pradesh''), (3, ''Assam''), (4, ''Bihar''),
     (5, ''Chhattisgarh''), (6, ''Goa''), (7, ''Gujarat''), (8, ''Haryana''),
     (9, ''Himachal Pradesh''), (10, ''Jharkhand''), (11, ''Karnataka''), (12, ''Kerala''),
     (13, ''Madhya Pradesh''), (14, ''Maharashtra''), (15, ''Manipur''), (16, ''Meghalaya''),
     (17, ''Mizoram''), (18, ''Nagaland''), (19, ''Odisha''), (20, ''Punjab''),
     (21, ''Rajasthan''), (22, ''Sikkim''), (23, ''Tamil Nadu''), (24, ''Telangana''),
     (25, ''Tripura''), (26, ''Uttar Pradesh''), (27, ''Uttarakhand''), (28, ''West Bengal''),
     (29, ''Delhi''), (30, ''Jammu & Kashmir''), (31, ''Ladakh''), (32, ''Andaman & Nicobar''),
     (33, ''Chandigarh''), (34, ''Dadra & Nagar Haveli''), (35, ''Lakshadweep''), (36, ''Puducherry'')]"

definition RESIDENCE_MAPPING_indexer :: "(int \<times> string) list" where
  "RESIDENCE_MAPPING_indexer = [(1, ''Urban''), (2, ''Rural'')]"

definition WEALTH_MAPPING_indexer :: "(int \<times> string) list" where
  "WEALTH_MAPPING_indexer =
    [(1, ''Poorest''), (2, ''Poorer''), (3, ''Middle''), (4, ''Richer''), (5, ''Richest'')]"

text \<open>
  The three labels \<open>create_patient_documents\<close> decodes for one row
  (\<open>MAPPING.get(int(row[...]), "Unknown")\<close>); \<open>int\<close> of a NaN cell raises.
\<close>

definition int_cell :: "int option \<Rightarrow> py_error + int" where
  "int_cell c = (case c of None \<Rightarrow> Inl (ValueError ''cannot convert float NaN to integer'')
                          | Some i \<Rightarrow> Inr i)"

definition indexer_labels :: "raw_row \<Rightarrow> py_error + (string \<times> string \<times> string)" where
  "indexer_labels row =
     (case int_cell (State row) of Inl e \<Rightarrow> Inl e | Inr s \<Rightarrow>
     (case int_cell (Urban_Rural row) of Inl e \<Rightarrow> Inl e | Inr r \<Rightarrow>
     (case int_cell (Wealth_Index row) of Inl e \<Rightarrow> Inl e | Inr w \<Rightarrow>
        Inr (dict_get STATE_MAPPING_indexer s ''Unknown'',
             dict_get RESIDENCE_MAPPING_indexer r ''Unknown'',
             dict_get WEALTH_MAPPING_indexer w ''Unknown''))))"

section \<open>Python floats\<close>

text \<open>
  A Python float is an IEEE 754 double: a finite value, an infinity or a NaN. A finite
  double is written as the rational it denotes (the sign of a zero takes part in no test
  of the program and is not kept). An arithmetic operation returns its exact result
  rounded to the nearest double, a tie to the even mantissa; a rounded magnitude of
  \<open>2 ^ 1024\<close> or more is an overflow.

  \<open>ilog2 n\<close> is the position of the leading bit of a positive integer (it strips 64
  bits at a time while it can), \<open>pow2 e\<close> the power \<open>2 ^ e\<close> for an integer exponent,
  \<open>exponent_of x\<close> the exponent \<open>e\<close> with \<open>2 ^ e \<le> |x| < 2 ^ (e + 1)\<close>. A double has a
  mantissa of 53 bits, and below \<open>2 ^ (- 1022)\<close> the spacing of the subnormal numbers,
  \<open>2 ^ (- 1074)\<close>.
\<close>

function ilog2 :: "int \<Rightarrow> int" where
  "ilog2 n = (if n < 2 then 0
              else if n \<ge> 18446744073709551616 then 64 + ilog2 (n div 18446744073709551616)
              else 1 + ilog2 (n div 2))"
  by pat_completeness auto
termination
  by (relation "measure nat") auto

function pow2_int :: "int \<Rightarrow> int" where
  "pow2_int e = (if e \<le> 0 then 1
                 else (let h = pow2_int (e div 2) in if even e then h * h else 2 * h * h))"
  by pat_completeness auto
termination
  by (relation "measure nat") auto

definition pow2 :: "int \<Rightarrow> rat" where
  "pow2 e = (if e \<ge> 0 then of_int (pow2_int e) else 1 / of_int (pow2_int (- e)))"

definition exponent_of :: "rat \<Rightarrow> int" where
  "exponent_of x =
     (let pq = quotient_of \<bar>x\<bar>;
          d = ilog2 (fst pq) - ilog2 (snd pq)
      in if pow2 d \<le> \<bar>x\<bar> then d else d - 1)"

text \<open>To the nearest integer, a tie to the even one.\<close>

definition round_half_even :: "rat \<Rightarrow> int" where
  "round_half_even x =
     (let f = \<lfloor>x\<rfloor>; d = x - of_int f
      in if d < 1 / 2 then f else if d > 1 / 2 then f + 1 else if even f then f else f + 1)"

definition round_to_double :: "rat \<Rightarrow> rat" where
  "round_to_double x =
     (if x = 0 then 0
      else (let q = max (exponent_of x) (- 1022) - 52
            in of_int (round_half_even (x / pow2 q)) * pow2 q))"

datatype pyfloat = Fin rat | PosInf | NegInf | NaN

text \<open>The double of an exact result; also the double a decimal literal denotes.\<close>

definition fl :: "rat \<Rightarrow> pyfloat" where
  "fl x = (let r = round_to_double x
           in if r \<ge> pow2 1024 then PosInf else if r \<le> - pow2 1024 then NegInf else Fin r)"

text \<open>
  \<open>a / b\<close> on floats: Python raises \<open>ZeroDivisionError\<close> for a zero divisor and
  otherwise divides as IEEE does, an overflow giving an infinity.
\<close>

definition fdiv :: "pyfloat \<Rightarrow> pyfloat \<Rightarrow> py_error + pyfloat" where
  "fdiv a b =
     (if b = Fin 0 then Inl ZeroDivisionError
      else Inr (case (a, b) of
                  (NaN, _) \<Rightarrow> NaN
                | (_, NaN) \<Rightarrow> NaN
                | (Fin x, Fin y) \<Rightarrow> fl (x / y)
                | (Fin x, _) \<Rightarrow> Fin 0
                | (PosInf, Fin y) \<Rightarrow> (if y > 0 then PosInf else NegInf)
                | (NegInf, Fin y) \<Rightarrow> (if y > 0 then NegInf else PosInf)
                | (_, _) \<Rightarrow> NaN))"

text \<open>
  \<open>a ** 2\<close> on a float: a NaN stays, an infinity gives the positive infinity, and a
  finite value is squared by the C library's \<open>pow\<close> (taken as correctly rounded); when
  the result overflows Python raises \<open>OverflowError\<close>, when it underflows the result is
  the zero it rounds to.
\<close>

definition fpow2 :: "pyfloat \<Rightarrow> py_error + pyfloat" where
  "fpow2 a =
     (case a of
        NaN \<Rightarrow> Inr NaN
      | PosInf \<Rightarrow> Inr PosInf
      | NegInf \<Rightarrow> Inr PosInf
      | Fin x \<Rightarrow> (let r = round_to_double (x * x)
                  in if r \<ge> pow2 1024 then Inl (OverflowError ''Numerical result out of range'')
                     else Inr (Fin r)))"

text \<open>\<open>float(i)\<close> of an int: the nearest double, or \<open>OverflowError\<close>.\<close>

definition float_of_int :: "int \<Rightarrow> py_error + pyfloat" where
  "float_of_int i =
     (let r = round_to_double (of_int i)
      in if \<bar>r\<bar> \<ge> pow2 1024 then Inl (OverflowError ''int too large to convert to float'')
         else Inr (Fin r))"

text \<open>\<open>a < c\<close> and \<open>c <= a\<close> for a float \<open>a\<close> and a number \<open>c\<close>; every comparison with a NaN is false.\<close>

definition flt :: "pyfloat \<Rightarrow> rat \<Rightarrow> bool" where
  "flt a c = (case a of Fin x \<Rightarrow> x < c | NegInf \<Rightarrow> True | PosInf \<Rightarrow> False | NaN \<Rightarrow> False)"

definition fle :: "rat \<Rightarrow> pyfloat \<Rightarrow> bool" where
  "fle c a = (case a of Fin x \<Rightarrow> c \<le> x | PosInf \<Rightarrow> True | NegInf \<Rightarrow> False | NaN \<Rightarrow> False)"

definition fle0 :: "pyfloat \<Rightarrow> bool" where
  "fle0 a = (case a of Fin x \<Rightarrow> x \<le> 0 | NegInf \<Rightarrow> True | PosInf \<Rightarrow> False | NaN \<Rightarrow> False)"

text \<open>
  \<open>round(a, 2)\<close>: an infinity or a NaN is returned as it is; a finite double is rounded,
  in its exact value, to the nearest hundredth (a tie to the even one), and the result is
  the double nearest to that decimal.
\<close>

definition py_round2 :: "pyfloat \<Rightarrow> pyfloat" where
  "py_round2 a =
     (case a of Fin x \<Rightarrow> Fin (round_to_double (of_int (round_half_even (x * 100)) / 100))
              | other \<Rightarrow> other)"

section \<open>app.py: the body mass index\<close>

text \<open>
  A value a form field or a caller hands over: \<open>None\<close>, a string, an int or a float.
  \<open>float(x)\<close> of a float is the float, of an int its nearest double; of a string it is
  what Python's parser makes of it, the argument \<open>parse\<close> of the functions below (\<open>None\<close>
  where \<open>float\<close> raises \<open>ValueError\<close>).
\<close>

datatype form_value = PyNone | PyStr string | PyInt int | PyFloat pyfloat

definition py_float :: "(string \<Rightarrow> pyfloat option) \<Rightarrow> form_value \<Rightarrow> py_error + pyfloat" where
  "py_float parse v =
     (case v of
        PyNone \<Rightarrow> Inl (TypeError ''float() argument must be a string or a real number'')
      | PyInt i \<Rightarrow> float_of_int i
      | PyFloat a \<Rightarrow> Inr a
      | PyStr s \<Rightarrow> (case parse s of None \<Rightarrow> Inl (ValueError ''could not convert string to float'')
                                    | Some a \<Rightarrow> Inr a))"

text \<open>\<open>x is None or x == "" or float(x) <= 0\<close>, evaluated left to right.\<close>

definition missing_or_nonpositive ::
  "(string \<Rightarrow> pyfloat option) \<Rightarrow> form_value \<Rightarrow> py_error + bool" where
  "missing_or_nonpositive parse v =
     (if v = PyNone \<or> v = PyStr [] then Inr True
      else (case py_float parse v of Inl e \<Rightarrow> Inl e | Inr a \<Rightarrow> Inr (fle0 a)))"

text \<open>The \<open>if\<close>/\<open>elif\<close> chain of the Asian cutoffs, with the source's own tests.\<close>

definition bmi_category_of :: "pyfloat \<Rightarrow> string" where
  "bmi_category_of b =
     (if flt b (185 / 10) then ''Underweight''
      else if fle (185 / 10) b \<and> flt b 23 then ''Normal''
      else if fle 23 b \<and> flt b (275 / 10) then ''Overweight''
      else ''Obese'')"

text \<open>The \<open>try\<close> block of \<open>calculate_bmi\<close>.\<close>

definition calculate_bmi_try ::
  "(string \<Rightarrow> pyfloat option) \<Rightarrow> form_value \<Rightarrow> form_value \<Rightarrow> py_error + (pyfloat \<times> string)" where
  "calculate_bmi_try parse weight height =
     (case missing_or_nonpositive parse weight of Inl e \<Rightarrow> Inl e | Inr bad_w \<Rightarrow>
     (if bad_w then Inr (Fin 0, ''Invalid'') else
     (case missing_or_nonpositive parse height of Inl e \<Rightarrow> Inl e | Inr bad_h \<Rightarrow>
     (if bad_h then Inr (Fin 0, ''Invalid'') else
     (case py_float parse weight of Inl e \<Rightarrow> Inl e | Inr w \<Rightarrow>
     (case py_float parse height of Inl e \<Rightarrow> Inl e | Inr h \<Rightarrow>
     (case fdiv h (Fin 100) of Inl e \<Rightarrow> Inl e | Inr height_m \<Rightarrow>
     (case fpow2 height_m of Inl e \<Rightarrow> Inl e | Inr squared \<Rightarrow>
     (case fdiv w squared of Inl e \<Rightarrow> Inl e | Inr b \<Rightarrow>
        Inr (py_round2 b, bmi_category_of b))))))))))"

text \<open>\<open>except (ValueError, TypeError, ZeroDivisionError)\<close>: the exceptions the handler takes.\<close>

fun caught_by_calculate_bmi :: "py_error \<Rightarrow> bool" where
  "caught_by_calculate_bmi (ValueError m) = True"
| "caught_by_calculate_bmi (TypeError m) = True"
| "caught_by_calculate_bmi ZeroDivisionError = True"
| "caught_by_calculate_bmi e = False"

definition calculate_bmi ::
  "(string \<Rightarrow> pyfloat option) \<Rightarrow> form_value \<Rightarrow> form_value \<Rightarrow> py_error + (pyfloat \<times> string)" where
  "calculate_bmi parse weight height =
     (case calculate_bmi_try parse weight height of
        Inl e \<Rightarrow> if caught_by_calculate_bmi e then Inr (Fin 0, ''Invalid'') else Inl e
      | Inr r \<Rightarrow> Inr r)"

section \<open>tasks/all\_tasks.py\<close>

text \<open>
  The values a patient dictionary holds. \<open>str(v)\<close> of a float is Python's shortest
  representation, the argument \<open>str_float\<close> of the functions below.
\<close>

datatype py_value = VNone | VBool bool | VInt int | VFloat pyfloat | VStr string

fun str_value :: "(pyfloat \<Rightarrow> string) \<Rightarrow> py_value \<Rightarrow> string" where
  "str_value str_float VNone = ''None''"
| "str_value str_float (VBool b) = (if b then ''True'' else ''False'')"
| "str_value str_float (VInt i) = str_int i"
| "str_value str_float (VFloat a) = str_float a"
| "str_value str_float (VStr s) = s"

text \<open>\<open>key.replace('_', ' ')\<close>.\<close>

definition replace_underscores :: "string \<Rightarrow> string" where
  "replace_underscores s = map (\<lambda>c. if c = CHR ''_'' then CHR '' '' else c) s"

text \<open>
  \<open>s.title()\<close> on ASCII text: a letter that follows a letter is lowered, a letter that
  follows anything else (or starts the string) is raised, other characters are kept.
\<close>

definition is_lower :: "char \<Rightarrow> bool" where
  "is_lower c = (let n = (of_char c :: nat) in 97 \<le> n \<and> n \<le> 122)"

definition is_upper :: "char \<Rightarrow> bool" where
  "is_upper c = (let n = (of_char c :: nat) in 65 \<le> n \<and> n \<le> 90)"

fun title_from :: "bool \<Rightarrow> string \<Rightarrow> string" where
  "title_from previous_is_cased [] = []"
| "title_from previous_is_cased (c # cs) =
     (if is_lower c then (if previous_is_cased then c else upper_char c) # title_from True cs
      else if is_upper c then (if previous_is_cased then lower_char c else c) # title_from True cs
      else c # title_from False cs)"

definition title :: "string \<Rightarrow> string" where
  "title s = title_from False s"

text \<open>\<open>sep.join(parts)\<close>.\<close>

fun join :: "string \<Rightarrow> string list \<Rightarrow> string" where
  "join sep [] = []"
| "join sep [x] = x"
| "join sep (x # y # ys) = x @ sep @ join sep (y # ys)"

definition newline :: char where
  "newline = CHR 0x0A"

text \<open>One entry of the list \<open>formatted\<close>, and the separator of the final join.\<close>

definition patient_line :: "(pyfloat \<Rightarrow> string) \<Rightarrow> string \<times> py_value \<Rightarrow> string" where
  "patient_line str_float kv =
     ''- '' @ title (replace_underscores (fst kv)) @ '': '' @ str_value str_float (snd kv)"

definition line_separator :: string where
  "line_separator = newline # ''    ''"

definition format_patient_data :: "(pyfloat \<Rightarrow> string) \<Rightarrow> (string \<times> py_value) list \<Rightarrow> string" where
  "format_patient_data str_float data = join line_separator (map (patient_line str_float) data)"

text \<open>
  \<open>template.format(**kwargs)\<close> for templates whose replacement fields are plain names:
  \<open>{{\<close> and \<open>}}\<close> are the braces themselves, \<open>{name}\<close> is the keyword argument
  \<open>name\<close> (a \<open>KeyError\<close> when the caller gave none; an \<open>IndexError\<close> for an empty or
  numeric field, there being no positional argument), a brace on its own is a
  \<open>ValueError\<close>. The template is read from left to right and the first failure is the
  one raised. Fields with a conversion, a format specification, an attribute or an index
  do not occur in the templates of the program.
\<close>

datatype format_state = InText | AfterOpen | InField string | AfterClose

definition field_value :: "(string \<times> string) list \<Rightarrow> string \<Rightarrow> py_error + string" where
  "field_value kwargs name =
     (if list_all (\<lambda>c. c \<in> set ''0123456789'') name
      then Inl (IndexError ''Replacement index out of range for positional args tuple'')
      else (case map_of kwargs name of None \<Rightarrow> Inl (KeyError name) | Some v \<Rightarrow> Inr v))"

definition prepend :: "string \<Rightarrow> py_error + string \<Rightarrow> py_error + string" where
  "prepend v r = (case r of Inl e \<Rightarrow> Inl e | Inr t \<Rightarrow> Inr (v @ t))"

fun format_scan :: "(string \<times> string) list \<Rightarrow> format_state \<Rightarrow> string \<Rightarrow> py_error + string" where
  "format_scan kwargs InText [] = Inr []"
| "format_scan kwargs AfterOpen [] = Inl (ValueError ''Single { encountered in format string'')"
| "format_scan kwargs (InField n) [] = Inl (ValueError ''expected } before end of string'')"
| "format_scan kwargs AfterClose [] = Inl (ValueError ''Single } encountered in format string'')"
| "format_scan kwargs InText (c # cs) =
     (if c = CHR ''{'' then format_scan kwargs AfterOpen cs
      else if c = CHR ''}'' then format_scan kwargs AfterClose cs
      else prepend [c] (format_scan kwargs InText cs))"
| "format_scan kwargs AfterOpen (c # cs) =
     (if c = CHR ''{'' then prepend ''{'' (format_scan kwargs InText cs)
      else if c = CHR ''}''
      then (case field_value kwargs [] of Inl e \<Rightarrow> Inl e
                                         | Inr v \<Rightarrow> prepend v (format_scan kwargs InText cs))
      else format_scan kwargs (InField [c]) cs)"
| "format_scan kwargs (InField n) (c # cs) =
     (if c = CHR ''}''
      then (case field_value kwargs (rev n) of Inl e \<Rightarrow> Inl e
                                              | Inr v \<Rightarrow> prepend v (format_scan kwargs InText cs))
      else format_scan kwargs (InField (c # n)) cs)"
| "format_scan kwargs AfterClose (c # cs) =
     (if c = CHR ''}'' then prepend ''}'' (format_scan kwargs InText cs)
      else Inl (ValueError ''Single } encountered in format string''))"

definition py_format :: "string \<Rightarrow> (string \<times> string) list \<Rightarrow> py_error + string" where
  "py_format template kwargs = format_scan kwargs InText template"

text \<open>
  The five entries of \<open>config/tasks.yaml\<close> that \<open>load_tasks_config\<close> returns. The file
  is not part of the sources; its texts are arguments of the model.
\<close>

record task_config =
  cfg_description :: string
  cfg_expected_output :: string

record tasks_config =
  analyze_patient_data :: task_config
  create_diet_plan :: task_config
  evaluate_medical_needs :: task_config
  create_fitness_plan :: task_config
  coordinate_treatment_plan :: task_config

datatype agent = DataAnalyst | Dietician | MedicalAdvisor | FitnessTrainer | CareCoordinator

record Task =
  description :: string
  expected_output :: string
  task_agent :: agent

definition make_task :: "task_config \<Rightarrow> agent \<Rightarrow> (string \<times> string) list \<Rightarrow> py_error + Task" where
  "make_task cfg a kwargs =
     (case py_format (cfg_description cfg) kwargs of
        Inl e \<Rightarrow> Inl e
      | Inr d \<Rightarrow> Inr \<lparr> description = d, expected_output = cfg_expected_output cfg, task_agent = a \<rparr>)"

definition create_analysis_task ::
  "tasks_config \<Rightarrow> (pyfloat \<Rightarrow> string) \<Rightarrow> agent \<Rightarrow> (string \<times> py_value) list \<Rightarrow> py_error + Task" where
  "create_analysis_task config str_float a data =
     make_task (analyze_patient_data config) a
       [(''patient_data'', format_patient_data str_float data)]"

definition create_diet_plan_task ::
  "tasks_config \<Rightarrow> (pyfloat \<Rightarrow> string) \<Rightarrow> agent \<Rightarrow> (string \<times> py_value) list \<Rightarrow> string \<Rightarrow> py_error + Task" where
  "create_diet_plan_task config str_float a data diagnostic_report =
     make_task (create_diet_plan config) a
       [(''patient_data'', format_patient_data str_float data),
        (''diagnostic_report'', diagnostic_report)]"

definition create_medical_evaluation_task ::
  "tasks_config \<Rightarrow> (pyfloat \<Rightarrow> string) \<Rightarrow> agent \<Rightarrow> (string \<times> py_value) list \<Rightarrow> string \<Rightarrow> py_error + Task" where
  "create_medical_evaluation_task config str_float a data diagnostic_report =
     make_task (evaluate_medical_needs config) a
       [(''patient_data'', format_patient_data str_float data),
        (''diagnostic_report'', diagnostic_report)]"

definition create_fitness_plan_task ::
  "tasks_config \<Rightarrow> (pyfloat \<Rightarrow> string) \<Rightarrow> agent \<Rightarrow> (string \<times> py_value) list \<Rightarrow> string \<Rightarrow> py_error + Task" where
  "create_fitness_plan_task config str_float a data diagnostic_report =
     make_task (create_fitness_plan config) a
       [(''patient_data'', format_patient_data str_float data),
        (''diagnostic_report'', diagnostic_report)]"

definition create_coordination_task ::
  "tasks_config \<Rightarrow> (pyfloat \<Rightarrow> string) \<Rightarrow> agent \<Rightarrow> (string \<times> py_value) list \<Rightarrow> py_error + Task" where
  "create_coordination_task config str_float a data =
     make_task (coordinate_treatment_plan config) a
       [(''patient_data'', format_patient_data str_float data),
        (''diagnostic_report'', ''{diagnostic_report}''),
        (''diet_plan'', ''{diet_plan}''),
        (''medical_evaluation'', ''{medical_evaluation}''),
        (''fitness_plan'', ''{fitness_plan}'')]"

section \<open>crew.py\<close>

text \<open>
  \<open>crew.kickoff()\<close> with \<open>Process.sequential\<close> belongs to the agent framework. It is
  modelled as running the tasks in the order of the list, each by one call of
  \<open>execute\<close>, the framework's execution of one task by its agent (the language model
  behind it): \<open>execute\<close> is handed the task and the outputs of the tasks already run,
  and returns the task's output or raises. The first exception ends the run. The log
  pairs every task that has run with its output.
\<close>

type_synonym executor = "Task \<Rightarrow> string list \<Rightarrow> py_error + string"

fun run_sequential ::
  "executor \<Rightarrow> (Task \<times> string) list \<Rightarrow> Task list \<Rightarrow> (Task \<times> string) list \<times> py_error option" where
  "run_sequential execute finished [] = (finished, None)"
| "run_sequential execute finished (t # ts) =
     (case execute t (map snd finished) of
        Inl e \<Rightarrow> (finished, Some e)
      | Inr out \<Rightarrow> run_sequential execute (finished @ [(t, out)]) ts)"

definition kickoff :: "executor \<Rightarrow> Task list \<Rightarrow> py_error + string" where
  "kickoff execute tasks =
     (case run_sequential execute [] tasks of
        (finished, Some e) \<Rightarrow> Inl e
      | (finished, None) \<Rightarrow> Inr (if finished = [] then [] else snd (last finished)))"

text \<open>
  \<open>print(f"BMI: {patient_data.get('bmi'):.1f} ...")\<close>: the format code \<open>f\<close> is defined for
  numbers only.
\<close>

definition print_bmi :: "(string \<times> py_value) list \<Rightarrow> py_error option" where
  "print_bmi data =
     (case map_of data ''bmi'' of
        None \<Rightarrow> Some (TypeError ''unsupported format string passed to NoneType.__format__'')
      | Some VNone \<Rightarrow> Some (TypeError ''unsupported format string passed to NoneType.__format__'')
      | Some (VStr s) \<Rightarrow> Some (ValueError ''Unknown format code f for object of type str'')
      | Some v \<Rightarrow> None)"

text \<open>The five tasks, created in the order of the source, before the crew is started.\<close>

definition setup_tasks ::
  "tasks_config \<Rightarrow> (pyfloat \<Rightarrow> string) \<Rightarrow> (string \<times> py_value) list \<Rightarrow> py_error + Task list" where
  "setup_tasks config str_float data =
     (case create_analysis_task config str_float DataAnalyst data of Inl e \<Rightarrow> Inl e | Inr analysis_task \<Rightarrow>
     (case create_diet_plan_task config str_float Dietician data ''{analysis}'' of Inl e \<Rightarrow> Inl e | Inr diet_task \<Rightarrow>
     (case create_medical_evaluation_task config str_float MedicalAdvisor data ''{analysis}'' of Inl e \<Rightarrow> Inl e | Inr medical_task \<Rightarrow>
     (case create_fitness_plan_task config str_float FitnessTrainer data ''{analysis}'' of Inl e \<Rightarrow> Inl e | Inr fitness_task \<Rightarrow>
     (case create_coordination_task config str_float CareCoordinator data of Inl e \<Rightarrow> Inl e | Inr coordination_task \<Rightarrow>
        Inr [analysis_task, diet_task, medical_task, fitness_task, coordination_task])))))"

text \<open>
  \<open>create_treatment_plan\<close>: the log of the tasks that ran, and the result or the
  exception.
\<close>

definition create_treatment_plan ::
  "executor \<Rightarrow> tasks_config \<Rightarrow> (pyfloat \<Rightarrow> string) \<Rightarrow> (string \<times> py_value) list
     \<Rightarrow> (Task \<times> string) list \<times> (py_error + string)" where
  "create_treatment_plan execute config str_float data =
     (case print_bmi data of
        Some e \<Rightarrow> ([], Inl e)
      | None \<Rightarrow>
          (case setup_tasks config str_float data of
             Inl e \<Rightarrow> ([], Inl e)
           | Inr tasks \<Rightarrow> (fst (run_sequential execute [] tasks), kickoff execute tasks)))"

definition stage_order :: "agent list" where
  "stage_order = [DataAnalyst, Dietician, MedicalAdvisor, FitnessTrainer, CareCoordinator]"

text \<open>\<open>needle in haystack\<close> on strings.\<close>

fun starts_with :: "string \<Rightarrow> string \<Rightarrow> bool" where
  "starts_with [] s = True"
| "starts_with (p # ps) [] = False"
| "starts_with (p # ps) (c # cs) = (p = c \<and> starts_with ps cs)"

fun contains :: "string \<Rightarrow> string \<Rightarrow> bool" where
  "contains needle [] = (needle = [])"
| "contains needle (c # cs) = (starts_with needle (c # cs) \<or> contains needle cs)"

section \<open>tools/medical\_knowledge\_rag.py and tools/rag\_tool.py\<close>

text \<open>
  A retrieved document: its text and \<open>metadata.get('source')\<close>. The vector store and the
  embedding model are external: a loaded store is the function \<open>similarity_search\<close>, which
  returns the documents found or raises.
\<close>

record Document =
  page_content :: string
  source :: "string option"

record MedicalKnowledgeRAG =
  vectorstore :: "(string \<Rightarrow> nat \<Rightarrow> py_error + Document list) option"

definition rag_query_medical_knowledge ::
  "MedicalKnowledgeRAG \<Rightarrow> string \<Rightarrow> nat \<Rightarrow> py_error + Document list" where
  "rag_query_medical_knowledge self query k =
     (case vectorstore self of
        None \<Rightarrow> Inl (ValueError ''Vector store not initialized. Call create_medical_knowledge_base() or load_existing_vectorstore() first'')
      | Some similarity_search \<Rightarrow> similarity_search query k)"

fun source_blocks :: "nat \<Rightarrow> Document list \<Rightarrow> string" where
  "source_blocks i [] = []"
| "source_blocks i (doc # docs) =
     ''Source '' @ str_nat i @ '' ('' @ (case source doc of None \<Rightarrow> ''Unknown'' | Some s \<Rightarrow> s) @ ''):''
       @ [newline] @ page_content doc @ [newline, newline] @ source_blocks (Suc i) docs"

definition get_medical_context :: "string \<Rightarrow> MedicalKnowledgeRAG \<Rightarrow> nat \<Rightarrow> py_error + string" where
  "get_medical_context query rag_system k =
     (case rag_query_medical_knowledge rag_system query k of
        Inl e \<Rightarrow> Inl e
      | Inr results \<Rightarrow>
          if results = [] then Inr ''No relevant medical information found.''
          else Inr (''Relevant Medical Knowledge:'' @ [newline, newline] @ source_blocks 1 results))"

text \<open>
  The tools. \<open>get_medical_rag()\<close> builds or loads the store on first use; what it
  returns or raises is the argument \<open>medical_rag\<close>. Every exception class of the model
  derives from \<open>Exception\<close>, so \<open>except Exception\<close> takes each of them.
\<close>

definition query_medical_knowledge :: "py_error + MedicalKnowledgeRAG \<Rightarrow> string \<Rightarrow> py_error + string" where
  "query_medical_knowledge medical_rag query =
     (case (case medical_rag of Inl e \<Rightarrow> Inl e | Inr rag \<Rightarrow> get_medical_context query rag 3) of
        Inl e \<Rightarrow> Inr (''Error retrieving medical knowledge: '' @ str_error e)
      | Inr context \<Rightarrow> Inr context)"

definition get_treatment_guidelines ::
  "py_error + MedicalKnowledgeRAG \<Rightarrow> string \<Rightarrow> string \<Rightarrow> py_error + string" where
  "get_treatment_guidelines medical_rag condition patient_context =
     (let query = (if patient_context \<noteq> [] then condition @ '' for patient with '' @ patient_context
                   else condition)
      in case (case medical_rag of Inl e \<Rightarrow> Inl e | Inr rag \<Rightarrow> get_medical_context query rag 4) of
           Inl e \<Rightarrow> Inr (''Error retrieving treatment guidelines: '' @ str_error e)
         | Inr context \<Rightarrow> Inr context)"

definition search_indian_health_data :: "py_error + MedicalKnowledgeRAG \<Rightarrow> string \<Rightarrow> py_error + string" where
  "search_indian_health_data medical_rag query =
     (case (case medical_rag of Inl e \<Rightarrow> Inl e
            | Inr rag \<Rightarrow> get_medical_context (''India specific: '' @ query) rag 3) of
        Inl e \<Rightarrow> Inr (''Error searching Indian health data: '' @ str_error e)
      | Inr context \<Rightarrow> Inr context)"

section \<open>app.py: the handler of the form\<close>

text \<open>
  \<open>generate_treatment_plan\<close> has \<open>yield\<close> in its body, so calling it makes a generator:
  whoever iterates it receives the values yielded, in order, and a \<open>return v\<close> ends the
  iteration with \<open>v\<close> carried by \<open>StopIteration\<close>, which no iteration hands on. A run
  of the generator is recorded with the values yielded, the value returned (if the body
  ended by \<open>return v\<close>) and the calls made, in order, to the progress bar and to what
  lies outside the function.

  Age, height and weight are \<open>gr.Number\<close> fields: \<open>None\<close> or a number, written as the
  rational the finite double \<open>float(x)\<close> denotes. The services the
  handler calls are arguments: whether \<open>_ensure_initialized\<close> raises, the food text, the
  crew's run, the captured log, the time stamp and the layout of the summary.
\<close>

datatype call = Progress rat | EnsureInitialized | LogPatientInput | CrewCreateTreatmentPlan

record generator_run =
  yielded :: "(string \<times> string \<times> string) list"
  returned :: "(string \<times> string \<times> string) option"
  calls :: "call list"

record services =
  ensure_initialized :: "py_error option"
  food_recommendations :: "string \<Rightarrow> string \<Rightarrow> string"
  crew_create_treatment_plan :: "(string \<times> py_value) list \<Rightarrow> py_error + string"
  agent_logs :: string
  timestamp :: string
  render_summary :: "(string \<times> py_value) list \<Rightarrow> string \<Rightarrow> string"

definition cross_mark :: string where
  "cross_mark = [CHR 0xE2, CHR 0x9D, CHR 0x8C]"

text \<open>The loading animation, reduced to the sentence it shows.\<close>

definition loading_msg :: string where
  "loading_msg = ''AI agents are analyzing your profile...''"

text \<open>\<open>not x\<close> for a number field, \<open>int(x)\<close> of a float, \<open>name.strip()\<close> being non-empty.\<close>

definition falsy :: "rat option \<Rightarrow> bool" where
  "falsy x = (case x of None \<Rightarrow> True | Some r \<Rightarrow> r = 0)"

definition py_int :: "rat \<Rightarrow> int" where
  "py_int r = (if r \<ge> 0 then \<lfloor>r\<rfloor> else \<lceil>r\<rceil>)"

definition is_space :: "char \<Rightarrow> bool" where
  "is_space c = (c \<in> set [CHR '' '', CHR 0x09, CHR 0x0A, CHR 0x0B, CHR 0x0C, CHR 0x0D])"

definition display_name :: "string option \<Rightarrow> string" where
  "display_name name =
     (case name of
        None \<Rightarrow> ''Anonymous''
      | Some n \<Rightarrow> if n \<noteq> [] \<and> \<not> list_all is_space n then n else ''Anonymous'')"

text \<open>The \<open>except Exception as e\<close> of the handler: one more value is yielded.\<close>

definition error_outputs :: "py_error \<Rightarrow> string \<times> string \<times> string" where
  "error_outputs e = (cross_mark @ '' Error: '' @ str_error e, [], str_error e)"

definition form_patient_data ::
  "services \<Rightarrow> string option \<Rightarrow> int \<Rightarrow> string \<Rightarrow> rat \<Rightarrow> rat \<Rightarrow> pyfloat \<Rightarrow> string \<Rightarrow> string
     \<Rightarrow> py_value \<Rightarrow> py_value \<Rightarrow> string \<Rightarrow> string \<Rightarrow> string \<Rightarrow> string \<Rightarrow> string
     \<Rightarrow> (string \<times> py_value) list" where
  "form_patient_data sv name a gender h w b cat diet_preference does_walking daily_steps
       smoking_status alcohol_consumption st res wealth =
     [(''patient_id'', VStr (''HF_USER_'' @ timestamp sv)),
      (''patient_name'', VStr (display_name name)),
      (''age'', VInt a),
      (''gender'', VStr gender),
      (''height_cm'', VFloat (Fin h)),
      (''weight_kg'', VFloat (Fin w)),
      (''bmi'', VFloat b),
      (''bmi_category'', VStr cat),
      (''state'', VStr st),
      (''residence_type'', VStr res),
      (''wealth_index'', VStr wealth),
      (''dietary_preference'', VStr diet_preference),
      (''location_context'', VStr (res @ '' area in '' @ st)),
      (''socioeconomic_status'', VStr wealth),
      (''physical_activity'', does_walking),
      (''daily_steps'', daily_steps),
      (''smoking_status'', VStr smoking_status),
      (''alcohol_consumption'', VStr alcohol_consumption)]"

definition generate_treatment_plan ::
  "services \<Rightarrow> string option \<Rightarrow> rat option \<Rightarrow> string \<Rightarrow> rat option \<Rightarrow> rat option \<Rightarrow> string
     \<Rightarrow> py_value \<Rightarrow> py_value \<Rightarrow> string \<Rightarrow> string \<Rightarrow> string \<Rightarrow> string \<Rightarrow> string
     \<Rightarrow> generator_run" where
  "generate_treatment_plan sv name age_in gender height_in weight_in diet_preference does_walking
       daily_steps smoking_status alcohol_consumption st res wealth =
     (if falsy height_in \<or> falsy weight_in \<or> falsy age_in
      then \<lparr> yielded = [],
             returned = Some (cross_mark @ '' Error: Please fill all required fields'', [], []),
             calls = [] \<rparr>
      else
       (let h = the height_in; w = the weight_in; a = py_int (the age_in)
        in if h \<le> 0 \<or> w \<le> 0 \<or> a < 18
           then \<lparr> yielded = [],
                  returned = Some (cross_mark @ '' Error: Invalid height, weight, or age values'', [], []),
                  calls = [] \<rparr>
           else
            (case ensure_initialized sv of
               Some e \<Rightarrow>
                 \<lparr> yielded = [(loading_msg, [], []), error_outputs e],
                   returned = None,
                   calls = [Progress (5 / 100), EnsureInitialized] \<rparr>
             | None \<Rightarrow>
                (case calculate_bmi (\<lambda>s. None) (PyFloat (Fin w)) (PyFloat (Fin h)) of
                   Inl e \<Rightarrow>
                     \<lparr> yielded = [(loading_msg, [], []), error_outputs e],
                       returned = None,
                       calls = [Progress (5 / 100), EnsureInitialized] \<rparr>
                 | Inr (b, cat) \<Rightarrow>
                    if b = Fin 0
                    then \<lparr> yielded = [(loading_msg, [], [])],
                           returned = Some (cross_mark @ '' Error: Invalid BMI calculation'', [], []),
                           calls = [Progress (5 / 100), EnsureInitialized] \<rparr>
                    else
                     (let food = food_recommendations sv st diet_preference;
                          data = form_patient_data sv name a gender h w b cat diet_preference
                                   does_walking daily_steps smoking_status alcohol_consumption
                                   st res wealth
                      in case crew_create_treatment_plan sv data of
                           Inl e \<Rightarrow>
                             \<lparr> yielded = [(loading_msg, [], []), error_outputs e],
                               returned = None,
                               calls = [Progress (5 / 100), EnsureInitialized, Progress (1 / 10),
                                        LogPatientInput, Progress (3 / 10),
                                        CrewCreateTreatmentPlan] \<rparr>
                         | Inr result \<Rightarrow>
                             \<lparr> yielded = [(loading_msg, [], []),
                                          (render_summary sv data result, food, agent_logs sv)],
                               returned = None,
                               calls = [Progress (5 / 100), EnsureInitialized, Progress (1 / 10),
                                        LogPatientInput, Progress (3 / 10),
                                        CrewCreateTreatmentPlan, Progress 1] \<rparr>)))))"

text \<open>What a caller that iterates the generator receives: the values yielded.\<close>

definition received :: "generator_run \<Rightarrow> (string \<times> string \<times> string) list" where
  "received run = yielded run"

section \<open>Definitions that follow the specification\<close>


text \<open>
  The specification's label of a snake-case key: the words between the underscores, each
  with its first letter raised, with one space between them.
\<close>

fun split_on :: "char \<Rightarrow> string \<Rightarrow> string list" where
  "split_on sep [] = [[]]"
| "split_on sep (c # cs) =
     (if c = sep then [] # split_on sep cs
      else (case split_on sep cs of [] \<Rightarrow> [[c]] | l # ls \<Rightarrow> (c # l) # ls))"

definition capitalize :: "string \<Rightarrow> string" where
  "capitalize w = (case w of [] \<Rightarrow> [] | c # cs \<Rightarrow> upper_char c # cs)"

definition spec_title_label :: "string \<Rightarrow> string" where
  "spec_title_label k = join '' '' (map capitalize (split_on CHR ''_'' k))"

text \<open>A key of lowercase letters and underscores.\<close>

definition snake_case :: "string \<Rightarrow> bool" where
  "snake_case k = list_all (\<lambda>c. is_lower c \<or> c = CHR ''_'') k"

section \<open>Example data\<close>

definition example_row :: raw_row where
  "example_row = \<lparr> row_name = 7, BMI = Some (293 / 10), Weight_kg = Some 75, Height_cm = Some 160,
       BMI_Category = Some ''Obese'', Age = Some 35, State = Some 99, Urban_Rural = Some 1,
       Wealth_Index = None \<rparr>"

definition example_row2 :: raw_row where
  "example_row2 = \<lparr> row_name = 8, BMI = Some (2076 / 100), Weight_kg = Some 60, Height_cm = Some 170,
       BMI_Category = Some ''Normal'', Age = Some 41, State = Some 14, Urban_Rural = Some 2,
       Wealth_Index = Some 4 \<rparr>"

definition example_loader :: PatientDataLoader where
  "example_loader = \<lparr> df = Some [example_row, example_row2] \<rparr>"

text \<open>
  The specification's filter of \<open>byCriteria\<close>: every filter that is supplied equals the
  decoded label of the record.
\<close>

definition spec_matches ::
  "string option \<Rightarrow> string option \<Rightarrow> string option \<Rightarrow> string option \<Rightarrow> patient_data \<Rightarrow> bool" where
  "spec_matches st res cat w p =
     ((case st of None \<Rightarrow> True | Some s \<Rightarrow> state p = s)
    \<and> (case res of None \<Rightarrow> True | Some s \<Rightarrow> residence_type p = s)
    \<and> (case cat of None \<Rightarrow> True | Some s \<Rightarrow> bmi_category p = s)
    \<and> (case w of None \<Rightarrow> True | Some s \<Rightarrow> wealth_index p = s))"

text \<open>\<open>s.split('\n')\<close>: the lines of a text.\<close>

fun split_lines :: "string \<Rightarrow> string list" where
  "split_lines [] = [[]]"
| "split_lines (c # cs) =
     (if c = newline then [] # split_lines cs
      else (case split_lines cs of [] \<Rightarrow> [[c]] | l # ls \<Rightarrow> (c # l) # ls))"

definition example_data :: "(string \<times> py_value) list" where
  "example_data =
     [(''patient_id'', VStr ''NFHS_7''), (''age'', VInt 35), (''height_cm'', VFloat (Fin 160)),
      (''bmi_category'', VStr ''Obese''), (''wealth_index'', VNone)]"

definition example_str_float :: "pyfloat \<Rightarrow> string" where
  "example_str_float a = (case a of Fin r \<Rightarrow> str_int \<lfloor>r\<rfloor> @ ''.0'' | other \<Rightarrow> ''nan'')"

definition failing_rag :: MedicalKnowledgeRAG where
  "failing_rag = \<lparr> vectorstore = Some (\<lambda>query k. Inl (RuntimeError ''embedding failed'')) \<rparr>"

text \<open>
  A log replays under an executor when every entry's output is what the executor returns
  for the entry's task, given the outputs of the entries before it.
\<close>

fun replays :: "executor \<Rightarrow> (Task \<times> string) list \<Rightarrow> (Task \<times> string) list \<Rightarrow> bool" where
  "replays execute finished [] = True"
| "replays execute finished (entry # rest) =
     (execute (fst entry) (map snd finished) = Inr (snd entry)
      \<and> replays execute (finished @ [entry]) rest)"

definition example_config :: tasks_config where
  "example_config =
     \<lparr> analyze_patient_data =
         \<lparr> cfg_description = ''Analyze: {patient_data}'', cfg_expected_output = ''A report'' \<rparr>,
       create_diet_plan =
         \<lparr> cfg_description = ''Diet for {patient_data} from {diagnostic_report}'',
           cfg_expected_output = ''A diet plan'' \<rparr>,
       evaluate_medical_needs =
         \<lparr> cfg_description = ''Medical needs from {diagnostic_report}'',
           cfg_expected_output = ''An evaluation'' \<rparr>,
       create_fitness_plan =
         \<lparr> cfg_description = ''Fitness from {diagnostic_report}'',
           cfg_expected_output = ''A fitness plan'' \<rparr>,
       coordinate_treatment_plan =
         \<lparr> cfg_description =
             ''Combine {diagnostic_report}, {diet_plan}, {medical_evaluation}, {fitness_plan}'',
           cfg_expected_output = ''A treatment plan'' \<rparr> \<rparr>"

definition example_patient :: "(string \<times> py_value) list" where
  "example_patient = [(''age'', VInt 35), (''bmi'', VFloat (Fin 29))]"

text \<open>An executor that answers every task with a text naming its agent.\<close>

definition example_execute :: executor where
  "example_execute t context =
     Inr (case task_agent t of
            DataAnalyst \<Rightarrow> ''ANALYSIS-OUT''
          | Dietician \<Rightarrow> ''DIET-OUT''
          | MedicalAdvisor \<Rightarrow> ''MEDICAL-OUT''
          | FitnessTrainer \<Rightarrow> ''FITNESS-OUT''
          | CareCoordinator \<Rightarrow> ''FINAL-PLAN'')"

definition example_run :: "(Task \<times> string) list \<times> (py_error + string)" where
  "example_run = create_treatment_plan example_execute example_config example_str_float example_patient"

definition two_line_name_data :: "(string \<times> py_value) list" where
  "two_line_name_data = [(''patient_name'', VStr (''Asha'' @ newline # ''Rao'')), (''age'', VInt 35)]"

section \<open>The body mass index\<close>

lemma float_value [simp]:
  "missing_or_nonpositive parse (PyFloat a) = Inr (fle0 a)"
  "py_float parse (PyFloat a) = Inr a"
  by (simp_all add: missing_or_nonpositive_def py_float_def)

lemma int_value:
  "missing_or_nonpositive parse (PyInt i) = (case float_of_int i of Inl e \<Rightarrow> Inl e | Inr a \<Rightarrow> Inr (fle0 a))"
  "py_float parse (PyInt i) = float_of_int i"
  by (simp_all add: missing_or_nonpositive_def py_float_def)

lemma numeric_value_parse_free:
  assumes "v = PyInt i \<or> v = PyFloat a"
  shows "missing_or_nonpositive parse v = missing_or_nonpositive (\<lambda>s. None) v"
    and "py_float parse v = py_float (\<lambda>s. None) v"
  using assms by (auto simp: int_value)

lemma calculate_bmi_parse_free:
  assumes "wv = PyInt i \<or> wv = PyFloat a" and "hv = PyInt j \<or> hv = PyFloat b"
  shows "calculate_bmi parse wv hv = calculate_bmi (\<lambda>s. None) wv hv"
  unfolding calculate_bmi_def calculate_bmi_try_def
    numeric_value_parse_free [OF assms(1), of parse] numeric_value_parse_free [OF assms(2), of parse]
  by (rule refl)



















lemma literal_70_4: "fl (704 / 10) = Fin (2476979795053773 / 35184372088832)"
  by code_simp


text \<open>
  Claim C2. For a weight of 75 kg and a height of 160 cm, given as ints or as floats,
  \<open>calculate_bmi\<close> returns the float 29.3 and the category Obese.
\<close>

theorem calculate_bmi_75_160:
  "calculate_bmi parse (PyInt 75) (PyInt 160) = Inr (fl (293 / 10), ''Obese'')
   \<and> calculate_bmi parse (PyFloat (Fin 75)) (PyFloat (Fin 160)) = Inr (fl (293 / 10), ''Obese'')"
proof -
  have a: "calculate_bmi (\<lambda>s. None) (PyInt 75) (PyInt 160) = Inr (fl (293 / 10), ''Obese'')"
    by code_simp
  have b: "calculate_bmi (\<lambda>s. None) (PyFloat (Fin 75)) (PyFloat (Fin 160)) = Inr (fl (293 / 10), ''Obese'')"
    by code_simp
  have pa: "calculate_bmi parse (PyInt 75) (PyInt 160) = calculate_bmi (\<lambda>s. None) (PyInt 75) (PyInt 160)"
    by (rule calculate_bmi_parse_free [of _ 75 NaN _ 160 NaN]) simp_all
  have pb: "calculate_bmi parse (PyFloat (Fin 75)) (PyFloat (Fin 160))
              = calculate_bmi (\<lambda>s. None) (PyFloat (Fin 75)) (PyFloat (Fin 160))"
    by (rule calculate_bmi_parse_free [of _ 0 "Fin 75" _ 0 "Fin 160"]) simp_all
  from a b pa pb show ?thesis by simp
qed

section \<open>The decoding tables\<close>

text \<open>
  Claim C10. The tables \<open>STATE_MAPPING\<close>, \<open>RESIDENCE_MAPPING\<close> and \<open>WEALTH_MAPPING\<close> of the
  patient data loader are equal, entry for entry, to the ones of the patient data
  indexer, so both modules decode every code to the same label.
\<close>

theorem mapping_tables_agree:
  "STATE_MAPPING = STATE_MAPPING_indexer
   \<and> RESIDENCE_MAPPING = RESIDENCE_MAPPING_indexer
   \<and> WEALTH_MAPPING = WEALTH_MAPPING_indexer
   \<and> dict_get STATE_MAPPING code ''Unknown'' = dict_get STATE_MAPPING_indexer code ''Unknown''
   \<and> dict_get RESIDENCE_MAPPING code ''Unknown'' = dict_get RESIDENCE_MAPPING_indexer code ''Unknown''
   \<and> dict_get WEALTH_MAPPING code ''Unknown'' = dict_get WEALTH_MAPPING_indexer code ''Unknown''"
proof -
  have s: "STATE_MAPPING = STATE_MAPPING_indexer"
    by (simp add: STATE_MAPPING_def STATE_MAPPING_indexer_def)
  have r: "RESIDENCE_MAPPING = RESIDENCE_MAPPING_indexer"
    by (simp add: RESIDENCE_MAPPING_def RESIDENCE_MAPPING_indexer_def)
  have w: "WEALTH_MAPPING = WEALTH_MAPPING_indexer"
    by (simp add: WEALTH_MAPPING_def WEALTH_MAPPING_indexer_def)
  show ?thesis by (simp add: s r w)
qed

lemma distinct_state_codes: "distinct (map fst STATE_MAPPING)"
  by (simp add: STATE_MAPPING_def)

lemma distinct_residence_codes: "distinct (map fst RESIDENCE_MAPPING)"
  by (simp add: RESIDENCE_MAPPING_def)

lemma distinct_wealth_codes: "distinct (map fst WEALTH_MAPPING)"
  by (simp add: WEALTH_MAPPING_def)

lemma dict_get_member: "distinct (map fst d) \<Longrightarrow> (k, v) \<in> set d \<Longrightarrow> dict_get d k dflt = v"
  by (simp add: dict_get_def)

lemma dict_get_absent: "k \<notin> fst ` set d \<Longrightarrow> dict_get d k dflt = dflt"
  by (simp add: dict_get_def map_of_eq_None_iff [THEN iffD2])

lemma state_of_row:
  "state (format_patient_row row) =
     dict_get STATE_MAPPING (case State row of Some c \<Rightarrow> c | None \<Rightarrow> 0) ''Unknown''"
  by (simp add: format_patient_row_def Let_def)

lemma residence_of_row:
  "residence_type (format_patient_row row) =
     dict_get RESIDENCE_MAPPING (case Urban_Rural row of Some c \<Rightarrow> c | None \<Rightarrow> 0) ''Unknown''"
  by (simp add: format_patient_row_def Let_def)

lemma wealth_of_row:
  "wealth_index (format_patient_row row) =
     dict_get WEALTH_MAPPING (case Wealth_Index row of Some c \<Rightarrow> c | None \<Rightarrow> 0) ''Unknown''"
  by (simp add: format_patient_row_def Let_def)

lemma state_codes: "fst ` set STATE_MAPPING = {1..36}"
proof -
  have "map fst STATE_MAPPING = [1..36]" by (simp add: STATE_MAPPING_def upto.simps)
  then have "set (map fst STATE_MAPPING) = set [1..36]" by simp
  then show ?thesis by simp
qed

text \<open>
  Claim C6. \<open>_format_patient_data\<close> decodes the state, residence and wealth codes of a
  row through the three tables: a code of a table gives the table's label, and a code
  that is in no table (state code 99, say) or a missing cell gives the label
  \<open>Unknown\<close>; the function has no failing branch.
\<close>

theorem format_patient_row_decodes:
  "((c, l) \<in> set STATE_MAPPING \<and> State row = Some c \<longrightarrow> state (format_patient_row row) = l)
   \<and> ((c, l) \<in> set RESIDENCE_MAPPING \<and> Urban_Rural row = Some c \<longrightarrow> residence_type (format_patient_row row) = l)
   \<and> ((c, l) \<in> set WEALTH_MAPPING \<and> Wealth_Index row = Some c \<longrightarrow> wealth_index (format_patient_row row) = l)
   \<and> (State row = Some c \<and> c \<notin> fst ` set STATE_MAPPING \<longrightarrow> state (format_patient_row row) = ''Unknown'')
   \<and> (Urban_Rural row = Some c \<and> c \<notin> fst ` set RESIDENCE_MAPPING \<longrightarrow> residence_type (format_patient_row row) = ''Unknown'')
   \<and> (Wealth_Index row = Some c \<and> c \<notin> fst ` set WEALTH_MAPPING \<longrightarrow> wealth_index (format_patient_row row) = ''Unknown'')
   \<and> (State row = None \<longrightarrow> state (format_patient_row row) = ''Unknown'')
   \<and> (Urban_Rural row = None \<longrightarrow> residence_type (format_patient_row row) = ''Unknown'')
   \<and> (Wealth_Index row = None \<longrightarrow> wealth_index (format_patient_row row) = ''Unknown'')"
proof (intro conjI impI)
  show "state (format_patient_row row) = l" if "(c, l) \<in> set STATE_MAPPING \<and> State row = Some c"
    using that by (simp add: state_of_row dict_get_member [OF distinct_state_codes])
  show "residence_type (format_patient_row row) = l"
    if "(c, l) \<in> set RESIDENCE_MAPPING \<and> Urban_Rural row = Some c"
    using that by (simp add: residence_of_row dict_get_member [OF distinct_residence_codes])
  show "wealth_index (format_patient_row row) = l"
    if "(c, l) \<in> set WEALTH_MAPPING \<and> Wealth_Index row = Some c"
    using that by (simp add: wealth_of_row dict_get_member [OF distinct_wealth_codes])
  show "state (format_patient_row row) = ''Unknown''"
    if "State row = Some c \<and> c \<notin> fst ` set STATE_MAPPING"
    using that by (simp add: state_of_row dict_get_absent)
  show "residence_type (format_patient_row row) = ''Unknown''"
    if "Urban_Rural row = Some c \<and> c \<notin> fst ` set RESIDENCE_MAPPING"
    using that by (simp add: residence_of_row dict_get_absent)
  show "wealth_index (format_patient_row row) = ''Unknown''"
    if "Wealth_Index row = Some c \<and> c \<notin> fst ` set WEALTH_MAPPING"
    using that by (simp add: wealth_of_row dict_get_absent)
  show "state (format_patient_row row) = ''Unknown''" if "State row = None"
    using that by (simp add: state_of_row dict_get_def STATE_MAPPING_def)
  show "residence_type (format_patient_row row) = ''Unknown''" if "Urban_Rural row = None"
    using that by (simp add: residence_of_row dict_get_def RESIDENCE_MAPPING_def)
  show "wealth_index (format_patient_row row) = ''Unknown''" if "Wealth_Index row = None"
    using that by (simp add: wealth_of_row dict_get_def WEALTH_MAPPING_def)
qed

theorem format_patient_row_decodes_witness:
  "state (format_patient_row example_row) = ''Unknown''
   \<and> residence_type (format_patient_row example_row) = ''Urban''
   \<and> wealth_index (format_patient_row example_row) = ''Unknown''"
proof -
  have a: "State example_row = Some 99 \<and> 99 \<notin> fst ` set STATE_MAPPING"
    by (simp add: example_row_def state_codes)
  have b: "(1, ''Urban'') \<in> set RESIDENCE_MAPPING \<and> Urban_Rural example_row = Some 1"
    by (simp add: example_row_def RESIDENCE_MAPPING_def)
  have c: "Wealth_Index example_row = None"
    by (simp add: example_row_def)
  note T = format_patient_row_decodes
  have "state (format_patient_row example_row) = ''Unknown''"
    using T [of 99 "[]" example_row] a by simp
  moreover have "residence_type (format_patient_row example_row) = ''Urban''"
    using T [of 1 "''Urban''" example_row] b by simp
  moreover have "wealth_index (format_patient_row example_row) = ''Unknown''"
    using T [of 0 "[]" example_row] c by simp
  ultimately show ?thesis by simp
qed

section \<open>The patient record provider\<close>

text \<open>
  Claim C4. On a loaded data set of \<open>n\<close> rows, \<open>get_patient_by_index\<close> returns the
  formatted record of row \<open>i\<close> for every \<open>i\<close> with \<open>0 \<le> i < n\<close>, and for every other
  index it raises the error whose message says that the index is out of range; it never
  returns a record there.
\<close>

theorem get_patient_by_index_total:
  "df self = Some rows \<Longrightarrow>
     (0 \<le> i \<and> i < int (length rows) \<longrightarrow>
        get_patient_by_index self i = Inr (format_patient_row (rows ! nat i)))
   \<and> (i < 0 \<or> int (length rows) \<le> i \<longrightarrow>
        get_patient_by_index self i =
          Inl (ValueError (''Index '' @ str_int i @ '' out of range (0-''
                            @ str_int (int (length rows) - 1) @ '')'')))"
  by (simp add: get_patient_by_index_def)

theorem get_patient_by_index_total_witness:
  "get_patient_by_index example_loader 1 =
     Inr (format_patient_row example_row2)
   \<and> get_patient_by_index example_loader 2 = Inl (ValueError ''Index 2 out of range (0-1)'')
   \<and> get_patient_by_index example_loader (- 1) = Inl (ValueError ''Index -1 out of range (0-1)'')"
proof -
  have d: "df example_loader = Some [example_row, example_row2]"
    by (simp add: example_loader_def)
  note T = get_patient_by_index_total [OF d]
  have s1: "str_int 1 = ''1''" "str_int 2 = ''2''" "str_int (- 1) = ''-1''"
    by code_simp+
  have "get_patient_by_index example_loader 1 =
     Inr (format_patient_row example_row2)"
    using T [of 1] by simp
  moreover have "get_patient_by_index example_loader 2 = Inl (ValueError ''Index 2 out of range (0-1)'')"
    using T [of 2] s1 by simp
  moreover have "get_patient_by_index example_loader (- 1) = Inl (ValueError ''Index -1 out of range (0-1)'')"
    using T [of "- 1"] s1 by simp
  ultimately show ?thesis by simp
qed

lemma length_df_sample: "n \<le> length xs \<Longrightarrow> length (df_sample rnd n xs) = n"
proof (induction n arbitrary: xs rnd)
  case 0
  then show ?case by simp
next
  case (Suc n)
  then have ne: "xs \<noteq> []" by auto
  define i where "i = (case rnd of [] \<Rightarrow> 0 | r # _ \<Rightarrow> r mod length xs)"
  have i: "i < length xs" using ne by (auto simp: i_def split: list.splits)
  have "length (take i xs @ drop (Suc i) xs) = length xs - 1" using i by simp
  with Suc.prems have "n \<le> length (take i xs @ drop (Suc i) xs)" by simp
  from Suc.IH [OF this] show ?case using ne by (simp add: i_def Let_def)
qed

lemma mset_df_sample: "mset (df_sample rnd n xs) \<subseteq># mset xs"
proof (induction n arbitrary: xs rnd)
  case 0
  then show ?case by simp
next
  case (Suc n)
  show ?case
  proof (cases "xs = []")
    case True
    then show ?thesis by simp
  next
    case False
    define i where "i = (case rnd of [] \<Rightarrow> 0 | r # _ \<Rightarrow> r mod length xs)"
    have i: "i < length xs" using False by (auto simp: i_def split: list.splits)
    have split: "mset xs = add_mset (xs ! i) (mset (take i xs @ drop (Suc i) xs))"
      using id_take_nth_drop [OF i] by (metis mset.simps(2) mset_append union_mset_add_mset_right)
    have "mset (df_sample (tl rnd) n (take i xs @ drop (Suc i) xs)) \<subseteq># mset (take i xs @ drop (Suc i) xs)"
      by (rule Suc.IH)
    then show ?thesis using False split by (simp add: i_def [symmetric] Let_def)
  qed
qed


lemma same_label_same_code:
  "distinct (map snd d) \<Longrightarrow> (k, v) \<in> set d \<Longrightarrow> (c, v) \<in> set d \<Longrightarrow> k = c"
  by (induction d) (auto simp: image_iff)

lemma dict_get_inj:
  assumes dk: "distinct (map fst d)" and dv: "distinct (map snd d)"
    and nd: "dflt \<notin> snd ` set d" and c: "c \<in> fst ` set d"
    and eq: "dict_get d k dflt = dict_get d c dflt"
  shows "k = c"
proof -
  from c obtain v where cv: "(c, v) \<in> set d" by auto
  then have gc: "dict_get d c dflt = v" using dk by (simp add: dict_get_def)
  show ?thesis
  proof (cases "map_of d k")
    case None
    then have "dict_get d k dflt = dflt" by (simp add: dict_get_def)
    with eq gc cv nd show ?thesis by (metis image_eqI snd_conv)
  next
    case (Some u)
    then have ku: "(k, u) \<in> set d" by (rule map_of_SomeD)
    from Some have "dict_get d k dflt = u" by (simp add: dict_get_def)
    with eq gc have "u = v" by simp
    with ku cv dv show ?thesis by (metis same_label_same_code)
  qed
qed

lemma find_code_member: "find_code d s = Some c \<Longrightarrow> c \<in> fst ` set d"
  by (induction d s rule: find_code.induct) (auto split: if_splits)

lemma find_code_label:
  "distinct (map fst d) \<Longrightarrow> find_code d s = Some c \<Longrightarrow> lower (dict_get d c dflt) = lower s"
proof (induction d s rule: find_code.induct)
  case (1 wanted)
  then show ?case by simp
next
  case (2 code name rest wanted)
  show ?case
  proof (cases "lower name = lower wanted")
    case True
    with 2 show ?thesis by (simp add: dict_get_def)
  next
    case False
    with 2 have f: "find_code rest wanted = Some c" by simp
    then have "c \<in> fst ` set rest" by (rule find_code_member)
    with 2 have "c \<noteq> code" by auto
    with 2 False f show ?thesis by (simp add: dict_get_def)
  qed
qed

lemma find_code_None: "find_code d s = None \<Longrightarrow> (c, l) \<in> set d \<Longrightarrow> lower l \<noteq> lower s"
  by (induction d s rule: find_code.induct) (auto split: if_splits)

lemma state_labels: "distinct (map snd STATE_MAPPING)" "''Unknown'' \<notin> snd ` set STATE_MAPPING"
  by (simp_all add: STATE_MAPPING_def)

lemma wealth_labels: "distinct (map snd WEALTH_MAPPING)" "''Unknown'' \<notin> snd ` set WEALTH_MAPPING"
  by (simp_all add: WEALTH_MAPPING_def)

lemma zero_not_state_code: "0 \<notin> fst ` set STATE_MAPPING"
  by (simp add: state_codes)

lemma zero_not_wealth_code: "0 \<notin> fst ` set WEALTH_MAPPING"
  by (simp add: WEALTH_MAPPING_def)

lemma state_cell_iff:
  assumes "c \<in> fst ` set STATE_MAPPING"
  shows "State r = Some c \<longleftrightarrow> state (format_patient_row r) = dict_get STATE_MAPPING c ''Unknown''"
proof
  assume "State r = Some c" then show "state (format_patient_row r) = dict_get STATE_MAPPING c ''Unknown''"
    by (simp add: state_of_row)
next
  assume eq: "state (format_patient_row r) = dict_get STATE_MAPPING c ''Unknown''"
  have "(case State r of Some c \<Rightarrow> c | None \<Rightarrow> 0) = c"
    by (rule dict_get_inj [OF distinct_state_codes state_labels assms]) (use eq in \<open>simp add: state_of_row\<close>)
  with assms zero_not_state_code show "State r = Some c" by (cases "State r") auto
qed

lemma wealth_cell_iff:
  assumes "c \<in> fst ` set WEALTH_MAPPING"
  shows "Wealth_Index r = Some c \<longleftrightarrow> wealth_index (format_patient_row r) = dict_get WEALTH_MAPPING c ''Unknown''"
proof
  assume "Wealth_Index r = Some c"
  then show "wealth_index (format_patient_row r) = dict_get WEALTH_MAPPING c ''Unknown''"
    by (simp add: wealth_of_row)
next
  assume eq: "wealth_index (format_patient_row r) = dict_get WEALTH_MAPPING c ''Unknown''"
  have "(case Wealth_Index r of Some c \<Rightarrow> c | None \<Rightarrow> 0) = c"
    by (rule dict_get_inj [OF distinct_wealth_codes wealth_labels assms]) (use eq in \<open>simp add: wealth_of_row\<close>)
  with assms zero_not_wealth_code show "Wealth_Index r = Some c" by (cases "Wealth_Index r") auto
qed

lemma filter_state_decoded:
  "filter_state st rows =
     (case wanted_label STATE_MAPPING st of
        None \<Rightarrow> rows
      | Some l \<Rightarrow> filter (\<lambda>r. state (format_patient_row r) = l) rows)"
proof (cases "truthy_str st")
  case False
  then show ?thesis by (simp add: filter_state_def wanted_label_def)
next
  case True
  show ?thesis
  proof (cases "find_code STATE_MAPPING (the st)")
    case None
    with True show ?thesis by (simp add: filter_state_def wanted_label_def truthy_code_def)
  next
    case (Some c)
    then have m: "c \<in> fst ` set STATE_MAPPING" by (rule find_code_member)
    with zero_not_state_code have nz: "c \<noteq> 0" by auto
    from True Some nz show ?thesis
      by (simp add: filter_state_def wanted_label_def truthy_code_def state_cell_iff [OF m])
  qed
qed

lemma filter_wealth_decoded:
  "filter_wealth w rows =
     (case wanted_label WEALTH_MAPPING w of
        None \<Rightarrow> rows
      | Some l \<Rightarrow> filter (\<lambda>r. wealth_index (format_patient_row r) = l) rows)"
proof (cases "truthy_str w")
  case False
  then show ?thesis by (simp add: filter_wealth_def wanted_label_def)
next
  case True
  show ?thesis
  proof (cases "find_code WEALTH_MAPPING (the w)")
    case None
    with True show ?thesis by (simp add: filter_wealth_def wanted_label_def truthy_code_def)
  next
    case (Some c)
    then have m: "c \<in> fst ` set WEALTH_MAPPING" by (rule find_code_member)
    with zero_not_wealth_code have nz: "c \<noteq> 0" by auto
    from True Some nz show ?thesis
      by (simp add: filter_wealth_def wanted_label_def truthy_code_def wealth_cell_iff [OF m])
  qed
qed

lemma residence_cell_iff:
  "Urban_Rural r = Some 1 \<longleftrightarrow> residence_type (format_patient_row r) = ''Urban''"
  "Urban_Rural r = Some 2 \<longleftrightarrow> residence_type (format_patient_row r) = ''Rural''"
  by (cases "Urban_Rural r"; simp add: residence_of_row dict_get_def RESIDENCE_MAPPING_def)+

lemma filter_residence_decoded:
  "filter_residence res rows =
     (if truthy_str res
      then filter (\<lambda>r. residence_type (format_patient_row r)
                          = (if lower (the res) = ''urban'' then ''Urban'' else ''Rural'')) rows
      else rows)"
  by (simp add: filter_residence_def residence_cell_iff)

lemma filter_bmi_category_decoded:
  "filter_bmi_category cat rows =
     (if truthy_str cat
      then filter (\<lambda>r. BMI_Category r \<noteq> None
                        \<and> lower (bmi_category (format_patient_row r)) = lower (the cat)) rows
      else rows)"
proof -
  have "(case BMI_Category r of None \<Rightarrow> False | Some c \<Rightarrow> lower c = lower s)
        = (BMI_Category r \<noteq> None \<and> lower (bmi_category (format_patient_row r)) = lower s)" for r s
    by (cases "BMI_Category r") (simp_all add: format_patient_row_def Let_def)
  then show ?thesis by (simp add: filter_bmi_category_def)
qed

lemma filtered_df_selected:
  "filter_wealth w (filter_bmi_category cat (filter_residence res (filter_state st rows)))
     = filter (selected st res cat w) rows"
proof -
  let ?ps = "\<lambda>r. case wanted_label STATE_MAPPING st of None \<Rightarrow> True
                    | Some l \<Rightarrow> state (format_patient_row r) = l"
  let ?pr = "\<lambda>r. if truthy_str res
                  then residence_type (format_patient_row r)
                         = (if lower (the res) = ''urban'' then ''Urban'' else ''Rural'')
                  else True"
  let ?pc = "\<lambda>r. if truthy_str cat
                  then BMI_Category r \<noteq> None
                         \<and> lower (bmi_category (format_patient_row r)) = lower (the cat)
                  else True"
  let ?pw = "\<lambda>r. case wanted_label WEALTH_MAPPING w of None \<Rightarrow> True
                    | Some l \<Rightarrow> wealth_index (format_patient_row r) = l"
  have s: "filter_state st xs = filter ?ps xs" for xs
    by (simp add: filter_state_decoded split: option.splits)
  have r: "filter_residence res xs = filter ?pr xs" for xs
    by (simp add: filter_residence_decoded)
  have c: "filter_bmi_category cat xs = filter ?pc xs" for xs
    by (simp add: filter_bmi_category_decoded)
  have w: "filter_wealth w xs = filter ?pw xs" for xs
    by (simp add: filter_wealth_decoded split: option.splits)
  have sel: "selected st res cat w x = (?ps x \<and> ?pr x \<and> ?pc x \<and> ?pw x)" for x
    by (simp add: selected_def Let_def)
  have "filter ?pw (filter ?pc (filter ?pr (filter ?ps rows)))
          = filter (\<lambda>x. ?ps x \<and> ?pr x \<and> ?pc x \<and> ?pw x) rows"
    unfolding filter_filter by (rule filter_cong [OF refl]) blast
  also have "\<dots> = filter (selected st res cat w) rows"
    by (rule filter_cong [OF refl]) (simp only: sel)
  finally show ?thesis by (simp only: s r c w)
qed

lemma wanted_label_Some:
  assumes "distinct (map fst table)" and "wanted_label table a = Some l"
  shows "l \<in> snd ` set table \<and> lower l = lower (the a)"
proof -
  from assms(2) obtain c where f: "find_code table (the a) = Some c"
      and l: "l = dict_get table c ''Unknown''"
    by (auto simp: wanted_label_def split: if_splits option.splits)
  from f have "c \<in> fst ` set table" by (rule find_code_member)
  then obtain v where cv: "(c, v) \<in> set table" by auto
  with assms(1) have "dict_get table c ''Unknown'' = v" by (simp add: dict_get_def)
  with cv l have "l \<in> snd ` set table" by (metis image_eqI snd_conv)
  moreover have "lower l = lower (the a)" unfolding l by (rule find_code_label [OF assms(1) f])
  ultimately show ?thesis by simp
qed

lemma wanted_label_None:
  assumes "0 \<notin> fst ` set table" and "truthy_str a" and "wanted_label table a = None"
  shows "list_all (\<lambda>cl. lower (snd cl) \<noteq> lower (the a)) table"
proof -
  have "find_code table (the a) = None"
  proof (cases "find_code table (the a)")
    case None
    then show ?thesis .
  next
    case (Some c)
    then have "c \<in> fst ` set table" by (rule find_code_member)
    with assms(1) have "c \<noteq> 0" by auto
    with Some assms(2,3) show ?thesis by (simp add: wanted_label_def)
  qed
  then show ?thesis by (auto simp: list_all_iff dest: find_code_None)
qed

text \<open>
  Claim C5, as amended. On a loaded data set and for a limit that is not negative,
  \<open>get_patients_by_criteria\<close> returns, without raising, records of the rows that pass
  \<open>selected\<close>: a state or wealth name that equals a label of its table up to letter
  case keeps the rows decoded to that label, a state or wealth name that equals no label
  is ignored, a residence type keeps the Urban rows when it is "urban" up to case and
  the Rural rows otherwise, a BMI category keeps the rows whose category equals it up
  to case. At most \<open>limit\<close> records are returned: all that pass, in order, when they are
  no more than \<open>limit\<close>, and otherwise \<open>limit\<close> of them, each row drawn at most once;
  when no row passes, the result is the empty list.
\<close>

theorem get_patients_by_criteria_selected:
  assumes "df self = Some rows" and "0 \<le> limit"
  shows "\<exists>ps. get_patients_by_criteria self rnd st res cat w limit = Inr ps
      \<and> length ps \<le> nat limit
      \<and> mset ps \<subseteq># mset (map format_patient_row (filter (selected st res cat w) rows))
      \<and> (length (filter (selected st res cat w) rows) \<le> nat limit
           \<longrightarrow> ps = map format_patient_row (filter (selected st res cat w) rows))
      \<and> (nat limit < length (filter (selected st res cat w) rows) \<longrightarrow> length ps = nat limit)
      \<and> (filter (selected st res cat w) rows = [] \<longrightarrow> ps = [])
      \<and> (wanted_label STATE_MAPPING st = Some l
           \<longrightarrow> l \<in> snd ` set STATE_MAPPING \<and> lower l = lower (the st))
      \<and> (truthy_str st \<and> wanted_label STATE_MAPPING st = None
           \<longrightarrow> list_all (\<lambda>cl. lower (snd cl) \<noteq> lower (the st)) STATE_MAPPING)
      \<and> (wanted_label WEALTH_MAPPING w = Some l
           \<longrightarrow> l \<in> snd ` set WEALTH_MAPPING \<and> lower l = lower (the w))
      \<and> (truthy_str w \<and> wanted_label WEALTH_MAPPING w = None
           \<longrightarrow> list_all (\<lambda>cl. lower (snd cl) \<noteq> lower (the w)) WEALTH_MAPPING)"
proof -
  let ?kept = "filter (selected st res cat w) rows"
  let ?ps = "if nat limit < length ?kept
             then map format_patient_row (df_sample rnd (nat limit) ?kept)
             else map format_patient_row ?kept"
  have res: "get_patients_by_criteria self rnd st res cat w limit = Inr ?ps"
    using assms by (auto simp: get_patients_by_criteria_def filtered_df_selected Let_def)
  have len: "length ?ps \<le> nat limit"
    by (simp add: length_df_sample)
  have sub: "mset ?ps \<subseteq># mset (map format_patient_row ?kept)"
    using mset_df_sample [of rnd "nat limit" ?kept] by (simp add: image_mset_subseteq_mono)
  have few: "length ?kept \<le> nat limit \<longrightarrow> ?ps = map format_patient_row ?kept"
    by simp
  have many: "nat limit < length ?kept \<longrightarrow> length ?ps = nat limit"
    by (simp add: length_df_sample)
  have none: "?kept = [] \<longrightarrow> ?ps = []"
    by auto
  have l1: "wanted_label STATE_MAPPING st = Some l
           \<longrightarrow> l \<in> snd ` set STATE_MAPPING \<and> lower l = lower (the st)"
    using wanted_label_Some [OF distinct_state_codes] by blast
  have l2: "truthy_str st \<and> wanted_label STATE_MAPPING st = None
           \<longrightarrow> list_all (\<lambda>cl. lower (snd cl) \<noteq> lower (the st)) STATE_MAPPING"
    using wanted_label_None [OF zero_not_state_code] by blast
  have l3: "wanted_label WEALTH_MAPPING w = Some l
           \<longrightarrow> l \<in> snd ` set WEALTH_MAPPING \<and> lower l = lower (the w)"
    using wanted_label_Some [OF distinct_wealth_codes] by blast
  have l4: "truthy_str w \<and> wanted_label WEALTH_MAPPING w = None
           \<longrightarrow> list_all (\<lambda>cl. lower (snd cl) \<noteq> lower (the w)) WEALTH_MAPPING"
    using wanted_label_None [OF zero_not_wealth_code] by blast
  show ?thesis
    apply (rule exI [of _ ?ps])
    apply (intro conjI)
    apply (rule res)
    apply (rule len)
    apply (rule sub)
    apply (rule few)
    apply (rule many)
    apply (rule none)
    apply (rule l1)
    apply (rule l2)
    apply (rule l3)
    apply (rule l4)
    done
qed

lemma example_kept:
  "filter (selected (Some ''maharashtra'') None None None) [example_row, example_row2] = [example_row2]"
  by code_simp

lemma example_kept_all:
  "filter (selected None None None None) [example_row, example_row2] = [example_row, example_row2]"
  by code_simp

theorem get_patients_by_criteria_selected_witness:
  "get_patients_by_criteria example_loader [] (Some ''maharashtra'') None None None 10
     = Inr [format_patient_row example_row2]
   \<and> (\<exists>ps. get_patients_by_criteria example_loader [5] None None None None 1 = Inr ps
          \<and> length ps = 1)"
proof -
  have d: "df example_loader = Some [example_row, example_row2]"
    by (simp add: example_loader_def)
  have le10: "(0::int) \<le> 10" and le1: "(0::int) \<le> 1" by simp_all
  from get_patients_by_criteria_selected
         [OF d le10, of "[]" "Some ''maharashtra''" None None None "[]"]
  obtain ps where a: "get_patients_by_criteria example_loader [] (Some ''maharashtra'') None None None 10
                        = Inr ps"
    and f: "length (filter (selected (Some ''maharashtra'') None None None) [example_row, example_row2])
              \<le> nat 10
            \<longrightarrow> ps = map format_patient_row
                   (filter (selected (Some ''maharashtra'') None None None) [example_row, example_row2])"
    by (elim exE conjE) (rule that; assumption)
  have "ps = [format_patient_row example_row2]"
    using f unfolding example_kept by simp
  with a have one: "get_patients_by_criteria example_loader [] (Some ''maharashtra'') None None None 10
     = Inr [format_patient_row example_row2]"
    by (simp only:)
  from get_patients_by_criteria_selected [OF d le1, of "[5]" None None None None "[]"]
  obtain qs where b: "get_patients_by_criteria example_loader [5] None None None None 1 = Inr qs"
    and g: "nat 1 < length (filter (selected None None None None) [example_row, example_row2])
            \<longrightarrow> length qs = nat 1"
    by (elim exE conjE) (rule that; assumption)
  have "length qs = 1"
    using g unfolding example_kept_all by simp
  with b have two: "\<exists>ps. get_patients_by_criteria example_loader [5] None None None None 1 = Inr ps
          \<and> length ps = 1"
    by (intro exI conjI)
  from one two show ?thesis by (rule conjI)
qed

text \<open>
  Claim C5, as stated, fails: no record of the example data has the state label
  "Atlantis", yet with that state filter both records are returned.
\<close>

theorem get_patients_by_criteria_unknown_state:
  "get_patients_by_criteria example_loader [] (Some ''Atlantis'') None None None 10
     = Inr (map format_patient_row [example_row, example_row2])
   \<and> filter (spec_matches (Some ''Atlantis'') None None None)
        (map format_patient_row [example_row, example_row2]) = []"
  by code_simp

section \<open>Prompt assembly\<close>

lemma split_lines_plain: "newline \<notin> set a \<Longrightarrow> split_lines a = [a]"
  by (induction a) auto

lemma split_lines_append: "newline \<notin> set a \<Longrightarrow> split_lines (a @ newline # b) = a # split_lines b"
  by (induction a) auto

lemma split_lines_nonempty: "split_lines s \<noteq> []"
  by (induction s) (auto split: list.splits)

lemma split_lines_prefix:
  "newline \<notin> set p \<Longrightarrow> split_lines (p @ s) = (p @ hd (split_lines s)) # tl (split_lines s)"
proof (induction p)
  case Nil
  then show ?case using split_lines_nonempty [of s] by simp
next
  case (Cons a p)
  then show ?case by (auto split: list.splits)
qed

lemma split_lines_join_pad:
  "newline \<notin> set pad \<Longrightarrow> ls \<noteq> [] \<Longrightarrow> list_all (\<lambda>l. newline \<notin> set l) ls \<Longrightarrow>
     split_lines (join (newline # pad) ls) = hd ls # map (\<lambda>l. pad @ l) (tl ls)"
proof (induction ls rule: induct_list012)
  case 1
  then show ?case by simp
next
  case (2 x)
  then show ?case by (simp add: split_lines_plain)
next
  case (3 x y ys)
  from "3.IH"(2) "3.prems" have ih: "split_lines (join (newline # pad) (y # ys)) = y # map (\<lambda>l. pad @ l) ys"
    by simp
  have "split_lines (join (newline # pad) (x # y # ys))
      = x # split_lines (pad @ join (newline # pad) (y # ys))"
    using "3.prems" by (simp add: split_lines_append)
  also have "split_lines (pad @ join (newline # pad) (y # ys))
      = (pad @ y) # map (\<lambda>l. pad @ l) ys"
    using ih "3.prems"(1) by (simp add: split_lines_prefix)
  finally show ?case by simp
qed

lemma split_lines_join:
  "ls \<noteq> [] \<Longrightarrow> list_all (\<lambda>l. newline \<notin> set l) ls \<Longrightarrow>
     split_lines (join line_separator ls) = hd ls # map (\<lambda>l. ''    '' @ l) (tl ls)"
  unfolding line_separator_def by (rule split_lines_join_pad) (simp_all add: newline_def)

lemma split_on_nonempty: "split_on sep s \<noteq> []"
  by (induction s) (auto split: list.splits)

lemma capitalize_simps: "capitalize [] = []" "capitalize (c # cs) = upper_char c # cs"
  by (simp_all add: capitalize_def)

lemma lower_not_upper: "is_lower c \<Longrightarrow> \<not> is_upper c"
  by (simp add: is_lower_def is_upper_def Let_def)

lemma space_uncased: "\<not> is_lower CHR '' ''" "\<not> is_upper CHR '' ''"
  by (simp_all add: is_lower_def is_upper_def)

lemma underscore_uncased: "\<not> is_lower CHR ''_''"
  by (simp add: is_lower_def)

lemma title_from_snake_case:
  "snake_case k \<Longrightarrow>
     title_from True (replace_underscores k)
       = join '' '' (hd (split_on CHR ''_'' k) # map capitalize (tl (split_on CHR ''_'' k)))
   \<and> title_from False (replace_underscores k)
       = join '' '' (map capitalize (split_on CHR ''_'' k))"
proof (induction k)
  case Nil
  then show ?case by (simp add: replace_underscores_def capitalize_simps)
next
  case (Cons c k)
  then have sk: "snake_case k" and c: "is_lower c \<or> c = CHR ''_''"
    by (simp_all add: snake_case_def)
  obtain l ls where sp: "split_on CHR ''_'' k = l # ls"
    using split_on_nonempty [of "CHR ''_''" k] by (cases "split_on CHR ''_'' k") auto
  from Cons.IH [OF sk] sp
  have t: "title_from True (replace_underscores k) = join '' '' (l # map capitalize ls)"
    and f: "title_from False (replace_underscores k) = join '' '' (capitalize l # map capitalize ls)"
    by simp_all
  show ?case
  proof (cases "c = CHR ''_''")
    case True
    then show ?thesis
      using f sp space_uncased by (simp add: replace_underscores_def capitalize_simps)
  next
    case False
    with c have lc: "is_lower c" by simp
    have r: "replace_underscores (c # k) = c # replace_underscores k"
      using False by (simp add: replace_underscores_def)
    have s: "split_on CHR ''_'' (c # k) = (c # l) # ls"
      using False sp by simp
    have j: "join '' '' ((x # l) # map capitalize ls) = x # join '' '' (l # map capitalize ls)" for x
      by (cases "map capitalize ls") simp_all
    show ?thesis
      using lc t False sp by (simp add: r j capitalize_simps)
  qed
qed

lemma title_snake_case: "snake_case k \<Longrightarrow> title (replace_underscores k) = spec_title_label k"
  by (simp add: title_def spec_title_label_def title_from_snake_case)

text \<open>
  Claim C9, as amended. For a patient dictionary with at least one field whose rendered
  entries hold no line break, the patient block has exactly one line per field, in the
  order of the fields, the lines after the first indented by the separator's four
  spaces. The entry of a field is a dash, the label, a colon and the value; for a key of
  lowercase letters and underscores the label is the key's words, each with its first
  letter raised, separated by single spaces. The rendered description of a task depends
  on the template's text, the record and the upstream text alone: not on the agent, nor
  on the rest of the configuration.
\<close>

theorem format_patient_data_one_line_per_field:
  "(data \<noteq> [] \<and> list_all (\<lambda>kv. newline \<notin> set (patient_line str_float kv)) data \<longrightarrow>
      split_lines (format_patient_data str_float data)
        = hd (map (patient_line str_float) data)
            # map (\<lambda>l. ''    '' @ l) (tl (map (patient_line str_float) data))
      \<and> length (split_lines (format_patient_data str_float data)) = length data)
   \<and> (snake_case k \<longrightarrow>
        patient_line str_float (k, v) = ''- '' @ spec_title_label k @ '': '' @ str_value str_float v)
   \<and> (cfg_description (analyze_patient_data config') = cfg_description (analyze_patient_data config) \<longrightarrow>
        map_sum id description (create_analysis_task config' str_float agent' data)
          = map_sum id description (create_analysis_task config str_float agent data))
   \<and> (cfg_description (create_diet_plan config') = cfg_description (create_diet_plan config) \<longrightarrow>
        map_sum id description (create_diet_plan_task config' str_float agent' data report)
          = map_sum id description (create_diet_plan_task config str_float agent data report))"
proof (intro conjI impI)
  assume a: "data \<noteq> [] \<and> list_all (\<lambda>kv. newline \<notin> set (patient_line str_float kv)) data"
  then have ne: "map (patient_line str_float) data \<noteq> []"
    and nl: "list_all (\<lambda>l. newline \<notin> set l) (map (patient_line str_float) data)"
    by (simp_all add: list_all_iff)
  show s: "split_lines (format_patient_data str_float data)
        = hd (map (patient_line str_float) data)
            # map (\<lambda>l. ''    '' @ l) (tl (map (patient_line str_float) data))"
    unfolding format_patient_data_def by (rule split_lines_join [OF ne nl])
  show "length (split_lines (format_patient_data str_float data)) = length data"
    using a unfolding s by (cases data) simp_all
next
  assume "snake_case k"
  then show "patient_line str_float (k, v) = ''- '' @ spec_title_label k @ '': '' @ str_value str_float v"
    by (simp add: patient_line_def title_snake_case)
next
  assume "cfg_description (analyze_patient_data config') = cfg_description (analyze_patient_data config)"
  then show "map_sum id description (create_analysis_task config' str_float agent' data)
          = map_sum id description (create_analysis_task config str_float agent data)"
    by (simp add: create_analysis_task_def make_task_def split: sum.splits)
next
  assume "cfg_description (create_diet_plan config') = cfg_description (create_diet_plan config)"
  then show "map_sum id description (create_diet_plan_task config' str_float agent' data report)
          = map_sum id description (create_diet_plan_task config str_float agent data report)"
    by (simp add: create_diet_plan_task_def make_task_def split: sum.splits)
qed

lemma example_lines_no_newline:
  "example_data \<noteq> [] \<and> list_all (\<lambda>kv. newline \<notin> set (patient_line example_str_float kv)) example_data"
  by code_simp

lemma example_lines:
  "hd (map (patient_line example_str_float) example_data)
     # map (\<lambda>l. ''    '' @ l) (tl (map (patient_line example_str_float) example_data))
   = [''- Patient Id: NFHS_7'', ''    - Age: 35'', ''    - Height Cm: 160.0'',
      ''    - Bmi Category: Obese'', ''    - Wealth Index: None'']"
  by code_simp

lemma example_key: "snake_case ''height_cm''"
  by code_simp

lemma example_label:
  "''- '' @ spec_title_label ''height_cm'' @ '': '' @ str_value example_str_float (VFloat (Fin 160))
     = ''- Height Cm: 160.0''"
  by code_simp

theorem format_patient_data_one_line_per_field_witness:
  "split_lines (format_patient_data example_str_float example_data)
     = [''- Patient Id: NFHS_7'', ''    - Age: 35'', ''    - Height Cm: 160.0'',
        ''    - Bmi Category: Obese'', ''    - Wealth Index: None'']
   \<and> length (split_lines (format_patient_data example_str_float example_data)) = length example_data
   \<and> patient_line example_str_float (''height_cm'', VFloat (Fin 160)) = ''- Height Cm: 160.0''"
proof -
  note T = format_patient_data_one_line_per_field
             [of example_data example_str_float "''height_cm''" "VFloat (Fin 160)"
                 example_config example_config DataAnalyst DataAnalyst "[]"]
  from T [THEN conjunct1, THEN mp, OF example_lines_no_newline]
  have a: "split_lines (format_patient_data example_str_float example_data)
     = [''- Patient Id: NFHS_7'', ''    - Age: 35'', ''    - Height Cm: 160.0'',
        ''    - Bmi Category: Obese'', ''    - Wealth Index: None'']
   \<and> length (split_lines (format_patient_data example_str_float example_data)) = length example_data"
    unfolding example_lines .
  from T [THEN conjunct2, THEN conjunct1, THEN mp, OF example_key]
  have b: "patient_line example_str_float (''height_cm'', VFloat (Fin 160)) = ''- Height Cm: 160.0''"
    unfolding example_label .
  from a b show ?thesis by (intro conjI) (erule conjunct1, erule conjunct2, assumption)
qed

text \<open>
  Claim C9, as stated, fails: a record of two fields whose name holds a line break is
  rendered on three lines.
\<close>

theorem format_patient_data_value_with_line_break:
  "length (split_lines (format_patient_data example_str_float two_line_name_data)) = 3
   \<and> length two_line_name_data = 2"
  by code_simp

section \<open>The retrieval tools\<close>

lemma retrieval_raises_cases:
  "medical_rag = Inl e \<or> (\<exists>rag. medical_rag = Inr rag \<and> rag_query_medical_knowledge rag query k = Inl e)
   \<Longrightarrow> (case medical_rag of Inl e \<Rightarrow> Inl e | Inr rag \<Rightarrow> get_medical_context query rag k) = Inl e"
  by (auto simp: get_medical_context_def)

text \<open>
  Claim C8. When building or loading the store raises, or the store is missing, or the
  similarity search raises, the tools \<open>query_medical_knowledge\<close>,
  \<open>search_indian_health_data\<close> and \<open>get_treatment_guidelines\<close> do not raise: each returns
  a text in place of the context, its own error sentence followed by the message of the
  exception. On every input each of the three returns a text.
\<close>

theorem retrieval_failure_is_not_propagated:
  "(medical_rag = Inl e \<or> (\<exists>rag. medical_rag = Inr rag \<and> rag_query_medical_knowledge rag query 3 = Inl e)
      \<longrightarrow> query_medical_knowledge medical_rag query
            = Inr (''Error retrieving medical knowledge: '' @ str_error e))
   \<and> (medical_rag = Inl e
        \<or> (\<exists>rag. medical_rag = Inr rag
               \<and> rag_query_medical_knowledge rag (''India specific: '' @ query) 3 = Inl e)
      \<longrightarrow> search_indian_health_data medical_rag query
            = Inr (''Error searching Indian health data: '' @ str_error e))
   \<and> (medical_rag = Inl e
        \<or> (\<exists>rag. medical_rag = Inr rag
               \<and> rag_query_medical_knowledge rag
                    (if patient_context \<noteq> [] then condition @ '' for patient with '' @ patient_context
                     else condition) 4 = Inl e)
      \<longrightarrow> get_treatment_guidelines medical_rag condition patient_context
            = Inr (''Error retrieving treatment guidelines: '' @ str_error e))
   \<and> (\<exists>t. query_medical_knowledge medical_rag query = Inr t)
   \<and> (\<exists>t. search_indian_health_data medical_rag query = Inr t)
   \<and> (\<exists>t. get_treatment_guidelines medical_rag condition patient_context = Inr t)"
proof (intro conjI impI)
  assume "medical_rag = Inl e \<or> (\<exists>rag. medical_rag = Inr rag \<and> rag_query_medical_knowledge rag query 3 = Inl e)"
  from retrieval_raises_cases [OF this]
  show "query_medical_knowledge medical_rag query = Inr (''Error retrieving medical knowledge: '' @ str_error e)"
    by (simp add: query_medical_knowledge_def)
next
  assume "medical_rag = Inl e
        \<or> (\<exists>rag. medical_rag = Inr rag
               \<and> rag_query_medical_knowledge rag (''India specific: '' @ query) 3 = Inl e)"
  from retrieval_raises_cases [OF this]
  show "search_indian_health_data medical_rag query
            = Inr (''Error searching Indian health data: '' @ str_error e)"
    by (simp add: search_indian_health_data_def)
next
  assume "medical_rag = Inl e
        \<or> (\<exists>rag. medical_rag = Inr rag
               \<and> rag_query_medical_knowledge rag
                    (if patient_context \<noteq> [] then condition @ '' for patient with '' @ patient_context
                     else condition) 4 = Inl e)"
  from retrieval_raises_cases [OF this]
  show "get_treatment_guidelines medical_rag condition patient_context
            = Inr (''Error retrieving treatment guidelines: '' @ str_error e)"
    by (simp add: get_treatment_guidelines_def Let_def)
next
  show "\<exists>t. query_medical_knowledge medical_rag query = Inr t"
    by (simp add: query_medical_knowledge_def split: sum.splits)
  show "\<exists>t. search_indian_health_data medical_rag query = Inr t"
    by (simp add: search_indian_health_data_def split: sum.splits)
  show "\<exists>t. get_treatment_guidelines medical_rag condition patient_context = Inr t"
    by (simp add: get_treatment_guidelines_def Let_def split: sum.splits)
qed

lemma failing_rag_raises:
  "rag_query_medical_knowledge failing_rag q k = Inl (RuntimeError ''embedding failed'')"
  by (simp add: rag_query_medical_knowledge_def failing_rag_def)

theorem retrieval_failure_is_not_propagated_witness:
  "query_medical_knowledge (Inr failing_rag) ''What is BMI?''
     = Inr ''Error retrieving medical knowledge: embedding failed''
   \<and> query_medical_knowledge (Inl (FileNotFoundError ''No vector store found at ./chroma_db'')) ''What is BMI?''
     = Inr ''Error retrieving medical knowledge: No vector store found at ./chroma_db''"
proof -
  have a: "Inr failing_rag = Inl (RuntimeError ''embedding failed'')
           \<or> (\<exists>rag. (Inr failing_rag :: py_error + MedicalKnowledgeRAG) = Inr rag
                  \<and> rag_query_medical_knowledge rag ''What is BMI?'' 3 = Inl (RuntimeError ''embedding failed''))"
    by (simp add: failing_rag_raises)
  note T = retrieval_failure_is_not_propagated
  from T [of "Inr failing_rag" "RuntimeError ''embedding failed''" "''What is BMI?''" "[]" "[]",
          THEN conjunct1, THEN mp, OF a]
  have one: "query_medical_knowledge (Inr failing_rag) ''What is BMI?''
     = Inr ''Error retrieving medical knowledge: embedding failed''"
    by simp
  have b: "(Inl (FileNotFoundError ''No vector store found at ./chroma_db'') :: py_error + MedicalKnowledgeRAG)
             = Inl (FileNotFoundError ''No vector store found at ./chroma_db'')
           \<or> (\<exists>rag. (Inl (FileNotFoundError ''No vector store found at ./chroma_db'')) = Inr rag
                  \<and> rag_query_medical_knowledge rag ''What is BMI?'' 3
                      = Inl (FileNotFoundError ''No vector store found at ./chroma_db''))"
    by simp
  from T [of "Inl (FileNotFoundError ''No vector store found at ./chroma_db'')"
             "FileNotFoundError ''No vector store found at ./chroma_db''" "''What is BMI?''" "[]" "[]",
          THEN conjunct1, THEN mp, OF b]
  have two: "query_medical_knowledge (Inl (FileNotFoundError ''No vector store found at ./chroma_db'')) ''What is BMI?''
     = Inr ''Error retrieving medical knowledge: No vector store found at ./chroma_db''"
    by simp
  from one two show ?thesis by (rule conjI)
qed

section \<open>The handler of the form\<close>

text \<open>
  Validation comes first: on a missing or invalid height, weight or age the handler makes
  no call at all, neither to the progress bar nor to the crew.
\<close>

lemma generate_treatment_plan_validates_first:
  assumes "falsy height_in \<or> falsy weight_in \<or> falsy age_in
           \<or> the height_in \<le> 0 \<or> the weight_in \<le> 0 \<or> py_int (the age_in) < 18"
  shows "calls (generate_treatment_plan sv name age_in gender height_in weight_in diet does_walking
                  daily_steps smoking alcohol st res wealth) = []
       \<and> yielded (generate_treatment_plan sv name age_in gender height_in weight_in diet does_walking
                  daily_steps smoking alcohol st res wealth) = []
       \<and> returned (generate_treatment_plan sv name age_in gender height_in weight_in diet does_walking
                  daily_steps smoking alcohol st res wealth) \<noteq> None"
  using assms by (auto simp: generate_treatment_plan_def Let_def)

text \<open>
  Claim C7, at the inputs where the code departs from it. For a height of -160 cm (and
  likewise for a missing age, or an age of 17) the handler makes no call, as the claim
  says, but it hands the error message to \<open>return\<close>: the generator yields nothing, so
  the caller that iterates it receives no error result.
\<close>

theorem generate_treatment_plan_error_not_yielded:
  "received (generate_treatment_plan sv name (Some 35) gender (Some (- 160)) (Some 75) diet
               does_walking daily_steps smoking alcohol st res wealth) = []
   \<and> returned (generate_treatment_plan sv name (Some 35) gender (Some (- 160)) (Some 75) diet
               does_walking daily_steps smoking alcohol st res wealth)
       = Some (cross_mark @ '' Error: Invalid height, weight, or age values'', [], [])
   \<and> calls (generate_treatment_plan sv name (Some 35) gender (Some (- 160)) (Some 75) diet
               does_walking daily_steps smoking alcohol st res wealth) = []
   \<and> received (generate_treatment_plan sv name None gender (Some 160) (Some 75) diet
               does_walking daily_steps smoking alcohol st res wealth) = []
   \<and> received (generate_treatment_plan sv name (Some 17) gender (Some 160) (Some 75) diet
               does_walking daily_steps smoking alcohol st res wealth) = []"
  by (simp add: generate_treatment_plan_def received_def falsy_def py_int_def Let_def)

text \<open>
  The handler's other error path does deliver: an exception of the initialisation is
  yielded as an error message after the loading message.
\<close>

lemma sibling_path_yields_the_error:
  "ensure_initialized sv = Some e \<Longrightarrow>
     received (generate_treatment_plan sv name (Some 35) gender (Some 160) (Some 75) diet
               does_walking daily_steps smoking alcohol st res wealth)
       = [(loading_msg, [], []), error_outputs e]"
  by (simp add: generate_treatment_plan_def received_def falsy_def py_int_def Let_def)

section \<open>The stage pipeline\<close>

lemma run_sequential_log:
  "run_sequential ex fin ts = (history, r) \<Longrightarrow>
     \<exists>n rest. n \<le> length ts \<and> history = fin @ rest \<and> map fst rest = take n ts
        \<and> replays ex fin rest \<and> (r = None \<longrightarrow> n = length ts)"
proof (induction ts arbitrary: fin history r)
  case Nil
  then show ?case by simp
next
  case (Cons t ts)
  show ?case
  proof (cases "ex t (map snd fin)")
    case (Inl e)
    with Cons.prems have "history = fin" "r = Some e" by simp_all
    then show ?thesis by (intro exI [of _ 0] exI [of _ "[]"]) simp
  next
    case (Inr out)
    with Cons.prems have "run_sequential ex (fin @ [(t, out)]) ts = (history, r)" by simp
    from Cons.IH [OF this] obtain n rest where n: "n \<le> length ts"
      and l: "history = (fin @ [(t, out)]) @ rest" and m: "map fst rest = take n ts"
      and p: "replays ex (fin @ [(t, out)]) rest" and e: "r = None \<longrightarrow> n = length ts"
      by blast
    show ?thesis
      using n l m p e Inr
      by (intro exI [of _ "Suc n"] exI [of _ "(t, out) # rest"]) simp
  qed
qed

lemma setup_tasks_shape:
  assumes "setup_tasks config str_float data = Inr tasks"
  shows "map task_agent tasks = stage_order"
    and "length tasks = 5"
    and "py_format (cfg_description (analyze_patient_data config))
           [(''patient_data'', format_patient_data str_float data)] = Inr (description (tasks ! 0))"
    and "py_format (cfg_description (create_diet_plan config))
           [(''patient_data'', format_patient_data str_float data),
            (''diagnostic_report'', ''{analysis}'')] = Inr (description (tasks ! 1))"
    and "py_format (cfg_description (evaluate_medical_needs config))
           [(''patient_data'', format_patient_data str_float data),
            (''diagnostic_report'', ''{analysis}'')] = Inr (description (tasks ! 2))"
    and "py_format (cfg_description (create_fitness_plan config))
           [(''patient_data'', format_patient_data str_float data),
            (''diagnostic_report'', ''{analysis}'')] = Inr (description (tasks ! 3))"
    and "py_format (cfg_description (coordinate_treatment_plan config))
           [(''patient_data'', format_patient_data str_float data),
            (''diagnostic_report'', ''{diagnostic_report}''),
            (''diet_plan'', ''{diet_plan}''),
            (''medical_evaluation'', ''{medical_evaluation}''),
            (''fitness_plan'', ''{fitness_plan}'')] = Inr (description (tasks ! 4))"
  using assms
  by (auto simp: setup_tasks_def create_analysis_task_def create_diet_plan_task_def
        create_medical_evaluation_task_def create_fitness_plan_task_def
        create_coordination_task_def make_task_def stage_order_def
      split: sum.splits)


text \<open>
  Claim C3, as amended. In every run the stages execute in the fixed order Analysis,
  DietPlanning, MedicalEvaluation, FitnessPlanning, Coordination, each from the outputs
  of all the stages before it, so Analysis runs before the three middle stages and all
  four run before Coordination; a run that returns a plan has run all five. The five
  task descriptions are rendered before any stage runs, from the templates and the
  patient record alone: each middle stage's description is its template with the
  literal text \<open>{analysis}\<close> for the diagnostic report, and Coordination's is its
  template with the literal texts \<open>{diagnostic_report}\<close>, \<open>{diet_plan}\<close>,
  \<open>{medical_evaluation}\<close> and \<open>{fitness_plan}\<close>. The tasks that run are these.
\<close>

theorem pipeline_order_and_prompts:
  assumes "create_treatment_plan execute config str_float data = (history, result)"
  shows "map (task_agent \<circ> fst) history = take (length history) stage_order
       \<and> replays execute [] history
       \<and> ((\<exists>out. result = Inr out) \<longrightarrow> length history = 5 \<and> result = Inr (snd (last history)))
       \<and> (setup_tasks config str_float data = Inr tasks \<longrightarrow>
            map fst history = take (length history) tasks
          \<and> py_format (cfg_description (analyze_patient_data config))
               [(''patient_data'', format_patient_data str_float data)] = Inr (description (tasks ! 0))
          \<and> py_format (cfg_description (create_diet_plan config))
               [(''patient_data'', format_patient_data str_float data),
                (''diagnostic_report'', ''{analysis}'')] = Inr (description (tasks ! 1))
          \<and> py_format (cfg_description (evaluate_medical_needs config))
               [(''patient_data'', format_patient_data str_float data),
                (''diagnostic_report'', ''{analysis}'')] = Inr (description (tasks ! 2))
          \<and> py_format (cfg_description (create_fitness_plan config))
               [(''patient_data'', format_patient_data str_float data),
                (''diagnostic_report'', ''{analysis}'')] = Inr (description (tasks ! 3))
          \<and> py_format (cfg_description (coordinate_treatment_plan config))
               [(''patient_data'', format_patient_data str_float data),
                (''diagnostic_report'', ''{diagnostic_report}''),
                (''diet_plan'', ''{diet_plan}''),
                (''medical_evaluation'', ''{medical_evaluation}''),
                (''fitness_plan'', ''{fitness_plan}'')] = Inr (description (tasks ! 4)))"
proof (cases "print_bmi data")
  case (Some e)
  with assms have "history = []" "result = Inl e" by (simp_all add: create_treatment_plan_def)
  then show ?thesis
    using setup_tasks_shape(3-7) [of config str_float data tasks] by simp
next
  case None
  show ?thesis
  proof (cases "setup_tasks config str_float data")
    case (Inl e)
    with None assms have "history = []" "result = Inl e" by (simp_all add: create_treatment_plan_def)
    with Inl show ?thesis by simp
  next
    case (Inr planned)
    obtain r where run: "run_sequential execute [] planned = (history, r)"
      using None Inr assms by (cases "run_sequential execute [] planned") (simp add: create_treatment_plan_def)
    have res: "result = (case r of Some e \<Rightarrow> Inl e
                         | None \<Rightarrow> Inr (if history = [] then [] else snd (last history)))"
      using None Inr assms run by (simp add: create_treatment_plan_def kickoff_def)
    from run_sequential_log [OF run] obtain n where n: "n \<le> length planned"
      and m: "map fst history = take n planned" and p: "replays execute [] history"
      and e: "r = None \<longrightarrow> n = length planned"
      by auto
    have len5: "length planned = 5" by (rule setup_tasks_shape(2) [OF Inr])
    have "length (map fst history) = n" unfolding m using n by simp
    then have ln: "length history = n" by simp
    have "map (task_agent \<circ> fst) history = map task_agent (map fst history)" by simp
    also have "\<dots> = take n (map task_agent planned)" unfolding m by (simp add: take_map)
    also have "\<dots> = take (length history) stage_order"
      by (simp add: ln setup_tasks_shape(1) [OF Inr])
    finally have order: "map (task_agent \<circ> fst) history = take (length history) stage_order" .
    have complete: "(\<exists>out. result = Inr out) \<longrightarrow> length history = 5 \<and> result = Inr (snd (last history))"
    proof
      assume "\<exists>out. result = Inr out"
      with res have rn: "r = None" by (cases r) auto
      with e len5 ln have l: "length history = 5" by simp
      then have "history \<noteq> []" by auto
      with res rn l show "length history = 5 \<and> result = Inr (snd (last history))" by simp
    qed
    have prompts: "setup_tasks config str_float data = Inr tasks \<longrightarrow>
            map fst history = take (length history) tasks
          \<and> py_format (cfg_description (analyze_patient_data config))
               [(''patient_data'', format_patient_data str_float data)] = Inr (description (tasks ! 0))
          \<and> py_format (cfg_description (create_diet_plan config))
               [(''patient_data'', format_patient_data str_float data),
                (''diagnostic_report'', ''{analysis}'')] = Inr (description (tasks ! 1))
          \<and> py_format (cfg_description (evaluate_medical_needs config))
               [(''patient_data'', format_patient_data str_float data),
                (''diagnostic_report'', ''{analysis}'')] = Inr (description (tasks ! 2))
          \<and> py_format (cfg_description (create_fitness_plan config))
               [(''patient_data'', format_patient_data str_float data),
                (''diagnostic_report'', ''{analysis}'')] = Inr (description (tasks ! 3))
          \<and> py_format (cfg_description (coordinate_treatment_plan config))
               [(''patient_data'', format_patient_data str_float data),
                (''diagnostic_report'', ''{diagnostic_report}''),
                (''diet_plan'', ''{diet_plan}''),
                (''medical_evaluation'', ''{medical_evaluation}''),
                (''fitness_plan'', ''{fitness_plan}'')] = Inr (description (tasks ! 4))"
    proof
      assume t: "setup_tasks config str_float data = Inr tasks"
      with Inr have "tasks = planned" by simp
      with m ln have "map fst history = take (length history) tasks" by simp
      with setup_tasks_shape(3-7) [OF t] show "map fst history = take (length history) tasks
          \<and> py_format (cfg_description (analyze_patient_data config))
               [(''patient_data'', format_patient_data str_float data)] = Inr (description (tasks ! 0))
          \<and> py_format (cfg_description (create_diet_plan config))
               [(''patient_data'', format_patient_data str_float data),
                (''diagnostic_report'', ''{analysis}'')] = Inr (description (tasks ! 1))
          \<and> py_format (cfg_description (evaluate_medical_needs config))
               [(''patient_data'', format_patient_data str_float data),
                (''diagnostic_report'', ''{analysis}'')] = Inr (description (tasks ! 2))
          \<and> py_format (cfg_description (create_fitness_plan config))
               [(''patient_data'', format_patient_data str_float data),
                (''diagnostic_report'', ''{analysis}'')] = Inr (description (tasks ! 3))
          \<and> py_format (cfg_description (coordinate_treatment_plan config))
               [(''patient_data'', format_patient_data str_float data),
                (''diagnostic_report'', ''{diagnostic_report}''),
                (''diet_plan'', ''{diet_plan}''),
                (''medical_evaluation'', ''{medical_evaluation}''),
                (''fitness_plan'', ''{fitness_plan}'')] = Inr (description (tasks ! 4))"
        by (intro conjI)
    qed
    from order p complete prompts show ?thesis by (intro conjI)
  qed
qed

lemma example_run_value:
  "example_run =
     ([(\<lparr>description = ''Analyze: - Age: 35'' @ newline # ''    - Bmi: 29.0'',
         expected_output = ''A report'', task_agent = DataAnalyst\<rparr>, ''ANALYSIS-OUT''),
       (\<lparr>description = ''Diet for - Age: 35'' @ newline # ''    - Bmi: 29.0 from {analysis}'',
         expected_output = ''A diet plan'', task_agent = Dietician\<rparr>, ''DIET-OUT''),
       (\<lparr>description = ''Medical needs from {analysis}'',
         expected_output = ''An evaluation'', task_agent = MedicalAdvisor\<rparr>, ''MEDICAL-OUT''),
       (\<lparr>description = ''Fitness from {analysis}'',
         expected_output = ''A fitness plan'', task_agent = FitnessTrainer\<rparr>, ''FITNESS-OUT''),
       (\<lparr>description =
           ''Combine {diagnostic_report}, {diet_plan}, {medical_evaluation}, {fitness_plan}'',
         expected_output = ''A treatment plan'', task_agent = CareCoordinator\<rparr>, ''FINAL-PLAN'')],
      Inr ''FINAL-PLAN'')"
  by code_simp

theorem pipeline_order_and_prompts_witness:
  "map (task_agent \<circ> fst) (fst example_run) = stage_order
   \<and> replays example_execute [] (fst example_run)
   \<and> snd example_run = Inr (snd (last (fst example_run)))"
proof -
  have run: "create_treatment_plan example_execute example_config example_str_float example_patient
               = (fst example_run, snd example_run)"
    by (simp add: example_run_def)
  have ok: "\<exists>out. snd example_run = Inr out"
    by (simp add: example_run_value)
  note T = pipeline_order_and_prompts [OF run, of "[]"]
  from T have a: "map (task_agent \<circ> fst) (fst example_run) = take (length (fst example_run)) stage_order"
    by (rule conjunct1)
  from T have b: "replays example_execute [] (fst example_run)"
    by (elim conjE)
  from T have c: "(\<exists>out. snd example_run = Inr out)
      \<longrightarrow> length (fst example_run) = 5 \<and> snd example_run = Inr (snd (last (fst example_run)))"
    by (elim conjE)
  from c ok have l: "length (fst example_run) = 5"
    and r: "snd example_run = Inr (snd (last (fst example_run)))" by simp_all
  have "take 5 stage_order = stage_order" by (simp add: stage_order_def)
  with a l have "map (task_agent \<circ> fst) (fst example_run) = stage_order" by simp
  with b r show ?thesis by (intro conjI)
qed

text \<open>
  Claim C3, as stated, fails on its second half: in the example run the Analysis stage
  returns ANALYSIS-OUT and the DietPlanning stage DIET-OUT, yet the description of the
  diet task holds the text \<open>{analysis}\<close> and not ANALYSIS-OUT, and the description of the
  Coordination task holds \<open>{diet_plan}\<close> and neither output.
\<close>

theorem prompts_hold_placeholders_not_outputs:
  "snd (fst example_run ! 0) = ''ANALYSIS-OUT''
   \<and> task_agent (fst (fst example_run ! 1)) = Dietician
   \<and> \<not> contains ''ANALYSIS-OUT'' (description (fst (fst example_run ! 1)))
   \<and> contains ''{analysis}'' (description (fst (fst example_run ! 1)))
   \<and> snd (fst example_run ! 1) = ''DIET-OUT''
   \<and> task_agent (fst (fst example_run ! 4)) = CareCoordinator
   \<and> \<not> contains ''ANALYSIS-OUT'' (description (fst (fst example_run ! 4)))
   \<and> \<not> contains ''DIET-OUT'' (description (fst (fst example_run ! 4)))
   \<and> contains ''{diet_plan}'' (description (fst (fst example_run ! 4)))"
  unfolding example_run_value by code_simp

text \<open>
  What rendering does with a replacement field: the text before it is copied and the
  field gives way to the keyword argument's text as it stands. Braces in the argument
  are not read again, so \<open>{analysis}\<close> passed for \<open>{diagnostic_report}\<close> stays in the
  description as written.
\<close>

lemma prepend_prepend: "prepend a (prepend b r) = prepend (a @ b) r"
  by (cases r) (simp_all add: prepend_def)

lemma format_scan_text:
  "CHR ''{'' \<notin> set pre \<Longrightarrow> CHR ''}'' \<notin> set pre \<Longrightarrow>
     format_scan kwargs InText (pre @ s) = prepend pre (format_scan kwargs InText s)"
proof (induction pre)
  case Nil
  show ?case by (cases "format_scan kwargs InText s") (simp_all add: prepend_def)
next
  case (Cons c pre)
  then show ?case by (auto simp: prepend_prepend)
qed

lemma format_scan_in_field:
  "CHR ''}'' \<notin> set cs \<Longrightarrow>
     format_scan kwargs (InField acc) (cs @ CHR ''}'' # post)
       = (case field_value kwargs (rev acc @ cs) of
            Inl e \<Rightarrow> Inl e
          | Inr v \<Rightarrow> prepend v (format_scan kwargs InText post))"
  by (induction cs arbitrary: acc) auto

lemma py_format_substitutes:
  assumes "CHR ''{'' \<notin> set pre" "CHR ''}'' \<notin> set pre"
    and "name \<noteq> []" "hd name \<noteq> CHR ''{''" "CHR ''}'' \<notin> set name"
    and "field_value kwargs name = Inr v"
  shows "py_format (pre @ ''{'' @ name @ ''}'' @ post) kwargs
           = prepend (pre @ v) (format_scan kwargs InText post)"
proof -
  from assms(3) obtain c cs where name: "name = c # cs" by (cases name) auto
  with assms(4,5) have c: "c \<noteq> CHR ''{''" "c \<noteq> CHR ''}''" and cs: "CHR ''}'' \<notin> set cs" by auto
  have "format_scan kwargs InText (''{'' @ name @ ''}'' @ post)
          = format_scan kwargs (InField [c]) (cs @ CHR ''}'' # post)"
    using c by (simp add: name)
  also have "\<dots> = prepend v (format_scan kwargs InText post)"
    using assms(6) by (simp add: format_scan_in_field [OF cs] name)
  finally show ?thesis
    by (simp add: py_format_def format_scan_text [OF assms(1,2)] prepend_prepend)
qed

end
